theory Spec2Isabelle
  imports Complex_Main "HOL-Library.Char_ord" "HOL-Library.List_Lexorder"
begin

section \<open>The audio-to-score pipeline of \<^verbatim>\<open>audio2score.py\<close>\<close>

text \<open>
  The script turns a recording into a score in four stages: \<^verbatim>\<open>preprocess_audio\<close>,
  \<^verbatim>\<open>run_basic_pitch\<close>, \<^verbatim>\<open>midi_to_musicxml\<close> and \<^verbatim>\<open>musicxml_to_pdf\<close>,
  sequenced by \<^verbatim>\<open>main\<close>. Every function below is the function of the same name in
  the script. The file system is an explicit value that is passed in and returned; what a
  function prints and which external capability it calls is returned as a list of events;
  an exception is the \<open>Inl\<close> of a sum. The external collaborators (librosa, numpy,
  soundfile, Basic Pitch, the MuseScore process, music21, the resolution of a path and the
  pattern matcher of \<^verbatim>\<open>Path.glob\<close>) are the fields of an environment record: the
  theorems hold for every environment.
\<close>

subsection \<open>Paths (\<^verbatim>\<open>pathlib.PurePosixPath\<close>)\<close>

text \<open>
  A resolved absolute path is the list of its components; the root is \<open>[]\<close>. Components
  come from \<^verbatim>\<open>resolve()\<close> and from \<^verbatim>\<open>.name\<close>/\<^verbatim>\<open>.stem\<close>, so they hold no separator,
  and \<^verbatim>\<open>d / name\<close> appends one component.
\<close>

type_synonym path = "string list"

definition name :: "path \<Rightarrow> string" where
  "name p = (if p = [] then [] else last p)"

definition parent :: "path \<Rightarrow> path" where
  "parent p = butlast p"

definition pjoin :: "path \<Rightarrow> string \<Rightarrow> path" where
  "pjoin d n = d @ [n]"

fun join :: "string \<Rightarrow> string list \<Rightarrow> string" where
  "join sep [] = []"
| "join sep [x] = x"
| "join sep (x # y # ys) = x @ sep @ join sep (y # ys)"

definition path_str :: "path \<Rightarrow> string" where
  "path_str p = ''/'' @ join ''/'' p"

text \<open>
  \<^verbatim>\<open>str.rfind\<close>: the index of the last occurrence, or \<open>-1\<close>. The loop keeps the index
  of the current character and the last index seen so far.
\<close>

fun rfind_from :: "char \<Rightarrow> string \<Rightarrow> int \<Rightarrow> int \<Rightarrow> int" where
  "rfind_from c [] i found = found"
| "rfind_from c (x # xs) i found = rfind_from c xs (i + 1) (if x = c then i else found)"

definition rfind :: "char \<Rightarrow> string \<Rightarrow> int" where
  "rfind c s = rfind_from c s 0 (- 1)"

text \<open>
  \<^verbatim>\<open>PurePath.suffix\<close> and \<^verbatim>\<open>PurePath.stem\<close> (Python 3.9 to 3.13):
  \<^verbatim>\<open>i = name.rfind('.')\<close>, and the name splits at \<open>i\<close> when \<^verbatim>\<open>0 < i < len(name) - 1\<close>.
\<close>

definition suffix_of :: "string \<Rightarrow> string" where
  "suffix_of n = (let i = rfind CHR ''.'' n
                  in if 0 < i \<and> i < int (length n) - 1 then drop (nat i) n else [])"

definition stem_of :: "string \<Rightarrow> string" where
  "stem_of n = (let i = rfind CHR ''.'' n
                in if 0 < i \<and> i < int (length n) - 1 then take (nat i) n else n)"

definition stem :: "path \<Rightarrow> string" where
  "stem p = stem_of (name p)"

subsection \<open>Exceptions, events and the file system\<close>

datatype exn =
    ValueError string
  | RuntimeError string
  | FileNotFoundError string
  | CalledProcessError int
  | SystemExit string
  | IsADirectoryError string
  | FileExistsError string
  | NotADirectoryError string
  | LibraryError string  \<comment> \<open>an exception that left an external call and is not caught\<close>

text \<open>
  \<^verbatim>\<open>PurePath.with_suffix\<close>: the suffix is checked, a path with an empty name is
  refused, and the old suffix (if any) is cut off the name before the new one is added.
\<close>

definition with_suffix :: "path \<Rightarrow> string \<Rightarrow> exn + path" where
  "with_suffix p sfx =
     (if CHR ''/'' \<in> set sfx then Inl (ValueError (''Invalid suffix '' @ sfx))
      else if (sfx \<noteq> [] \<and> take 1 sfx \<noteq> ''.'') \<or> sfx = ''.''
        then Inl (ValueError (''Invalid suffix '' @ sfx))
      else if name p = []
        then Inl (ValueError (''PosixPath('' @ [CHR 0x27] @ path_str p @ [CHR 0x27] @ '') has an empty name''))
      else let old_suffix = suffix_of (name p);
               n = (if old_suffix = [] then name p @ sfx
                    else take (length (name p) - length old_suffix) (name p) @ sfx)
           in Inr (pjoin (parent p) n))"

datatype node = File | Dir

text \<open>
  The file system lists what exists, newest entry first; the root always exists.
\<close>

type_synonym fs = "(path \<times> node) list"

definition lookup :: "fs \<Rightarrow> path \<Rightarrow> node option" where
  "lookup f p = (if p = [] then Some Dir else map_of f p)"

definition exists :: "fs \<Rightarrow> path \<Rightarrow> bool" where
  "exists f p = (lookup f p \<noteq> None)"

definition unlink :: "fs \<Rightarrow> path \<Rightarrow> exn + fs" where
  "unlink f p =
     (case lookup f p of
        None \<Rightarrow> Inl (FileNotFoundError (path_str p))
      | Some Dir \<Rightarrow> Inl (IsADirectoryError (path_str p))
      | Some File \<Rightarrow> Inr (filter (\<lambda>e. fst e \<noteq> p) f))"

text \<open>
  \<^verbatim>\<open>Path.mkdir(parents=True, exist_ok=True)\<close>: an existing directory is kept, an
  existing file is an error, a missing parent is created first.
\<close>

function mkdir_p :: "path \<Rightarrow> fs \<Rightarrow> exn + fs" where
  "mkdir_p p f =
     (case lookup f p of
        Some Dir \<Rightarrow> Inr f
      | Some File \<Rightarrow> Inl (FileExistsError (path_str p))
      | None \<Rightarrow>
          (case lookup f (parent p) of
             Some File \<Rightarrow> Inl (NotADirectoryError (path_str p))
           | Some Dir \<Rightarrow> Inr ((p, Dir) # f)
           | None \<Rightarrow>
               (case mkdir_p (parent p) f of
                  Inl e \<Rightarrow> Inl e
                | Inr f' \<Rightarrow> Inr ((p, Dir) # f'))))"
  by pat_completeness auto
termination
proof (relation "measure (\<lambda>(p, f). length p)")
  show "wf (measure (\<lambda>(p, f). length p))" by simp
next
  fix p :: path and f :: fs
  assume "lookup f p = None"
  then have "p \<noteq> []" by (auto simp: lookup_def)
  then show "((parent p, f), (p, f)) \<in> measure (\<lambda>(p, f). length p)"
    by (simp add: parent_def)
qed

declare mkdir_p.simps [simp del]

datatype event =
    Stdout string  \<comment> \<open>a line printed on standard output\<close>
  | Stderr string  \<comment> \<open>a line printed on standard error\<close>
  | Librosa_load path
  | Sf_write path
  | Import_basic_pitch
  | Predict_and_save path path fs  \<comment> \<open>with the file system the capability finds\<close>
  | Subprocess_run "string list"
  | Converter_parse path
  | Score_write path

subsection \<open>The external collaborators\<close>

text \<open>
  What a launched process does: it exits with a status (negative for a signal), or the
  executable is not found, or the launch fails in another way.
\<close>

datatype proc = Exited int | NotFound string | LaunchFailed string

text \<open>
  \<open>'s\<close> is the type of a sample and \<open>'m\<close> the type of a parsed score. An external call
  that raises returns \<open>Inl\<close> with the text of its exception. The floating-point array
  operations of numpy are left uninterpreted.
\<close>

record ('s, 'm) env =
  resolve :: "string \<Rightarrow> string + path"
    \<comment> \<open>\<^verbatim>\<open>pathlib.Path(s).expanduser().resolve()\<close>, which raises for an unknown
        \<^verbatim>\<open>~user\<close>, a symbolic link loop or a NUL byte\<close>
  librosa_load :: "path \<Rightarrow> nat \<Rightarrow> fs \<Rightarrow> string + 's list"
    \<comment> \<open>\<^verbatim>\<open>librosa.load(path, sr=sr, mono=True)\<close>\<close>
  np_max_abs :: "'s list \<Rightarrow> 's"
    \<comment> \<open>\<^verbatim>\<open>np.max(np.abs(y))\<close>\<close>
  np_gt_zero :: "'s \<Rightarrow> bool"
    \<comment> \<open>\<^verbatim>\<open>peak > 0\<close>\<close>
  np_scale :: "'s list \<Rightarrow> 's \<Rightarrow> 's list"
    \<comment> \<open>\<^verbatim>\<open>0.95 * y / peak\<close>\<close>
  sf_write :: "path \<Rightarrow> 's list \<Rightarrow> nat \<Rightarrow> fs \<Rightarrow> string + fs"
    \<comment> \<open>\<^verbatim>\<open>sf.write(path, y, sr)\<close>\<close>
  import_basic_pitch :: "string option"
    \<comment> \<open>the exception of the two imports of lines 43-44, if any\<close>
  predict_and_save :: "path \<Rightarrow> path \<Rightarrow> fs \<Rightarrow> string + fs"
    \<comment> \<open>Basic Pitch on one audio file and an output directory, with the fixed options of lines 65-73\<close>
  fnmatch :: "string \<Rightarrow> string \<Rightarrow> bool"
    \<comment> \<open>does a file name match a pattern of \<^verbatim>\<open>Path.glob\<close>\<close>
  spawn :: "string list \<Rightarrow> fs \<Rightarrow> proc \<times> fs"
    \<comment> \<open>the process of a command line and the file system it leaves\<close>
  converter_parse :: "path \<Rightarrow> fs \<Rightarrow> string + 'm"
    \<comment> \<open>\<^verbatim>\<open>music21.converter.parse(path)\<close>\<close>
  score_write :: "'m \<Rightarrow> path \<Rightarrow> fs \<Rightarrow> string + fs"
    \<comment> \<open>\<^verbatim>\<open>score.write("musicxml", fp=path)\<close>\<close>

text \<open>
  \<^verbatim>\<open>subprocess.run(cmd, check=True)\<close>: a missing executable is a
  \<^verbatim>\<open>FileNotFoundError\<close>, a status other than 0 a \<^verbatim>\<open>CalledProcessError\<close>.
\<close>

definition subprocess_run_check ::
  "('s, 'm) env \<Rightarrow> string list \<Rightarrow> fs \<Rightarrow> (exn + unit) \<times> fs" where
  "subprocess_run_check env cmd f =
     (case spawn env cmd f of
        (NotFound m, f') \<Rightarrow> (Inl (FileNotFoundError m), f')
      | (LaunchFailed m, f') \<Rightarrow> (Inl (LibraryError m), f')
      | (Exited rc, f') \<Rightarrow>
          if rc \<noteq> 0 then (Inl (CalledProcessError rc), f') else (Inr (), f'))"

text \<open>
  \<^verbatim>\<open>d.glob(pattern)\<close> (Python 3.9 to 3.12) for a pattern of one component that is not
  \<^verbatim>\<open>**\<close> itself: a pattern that holds \<^verbatim>\<open>**\<close> is refused with a \<^verbatim>\<open>ValueError\<close>;
  otherwise the result is the entries of the directory \<open>d\<close> whose name matches, each once.
\<close>

fun has_double_star :: "string \<Rightarrow> bool" where
  "has_double_star (a # b # cs) = ((a = CHR ''*'' \<and> b = CHR ''*'') \<or> has_double_star (b # cs))"
| "has_double_star cs = False"

definition glob :: "('s, 'm) env \<Rightarrow> fs \<Rightarrow> path \<Rightarrow> string \<Rightarrow> exn + path list" where
  "glob env f d pat =
     (if has_double_star pat
      then Inl (ValueError (''Invalid pattern: '' @ [CHR 0x27] @ ''**'' @ [CHR 0x27]
                            @ '' can only be an entire path component''))
      else Inr (remdups (filter (\<lambda>p. p \<noteq> [] \<and> parent p = d \<and> fnmatch env (name p) pat)
                           (map fst f))))"

text \<open>\<^verbatim>\<open>str(n)\<close> for an integer.\<close>

fun str_nat :: "nat \<Rightarrow> string" where
  "str_nat n = (if n < 10 then [''0123456789'' ! n]
                else str_nat (n div 10) @ [''0123456789'' ! (n mod 10)])"

declare str_nat.simps [simp del]

definition str_int :: "int \<Rightarrow> string" where
  "str_int i = (if i < 0 then ''-'' @ str_nat (nat (- i)) else str_nat (nat i))"

subsection \<open>\<^verbatim>\<open>preprocess_audio\<close> (lines 14-29)\<close>

definition preprocess_audio ::
  "('s, 'm) env \<Rightarrow> path \<Rightarrow> nat \<Rightarrow> fs \<Rightarrow> (exn + path) \<times> fs \<times> event list" where
  "preprocess_audio env input_path target_sr f =
     (case librosa_load env input_path target_sr f of
        Inl m \<Rightarrow> (Inl (LibraryError m), f, [Librosa_load input_path])
      | Inr y \<Rightarrow>
          if length y = 0
          then (Inl (ValueError (''Empty audio after loading: '' @ path_str input_path)),
                f, [Librosa_load input_path])
          else
            let peak = np_max_abs env y;
                y' = (if np_gt_zero env peak then np_scale env y peak else y)
            in (case with_suffix input_path ''.normalized.wav'' of
                  Inl e \<Rightarrow> (Inl e, f, [Librosa_load input_path])
                | Inr out_path \<Rightarrow>
                    (case sf_write env out_path y' target_sr f of
                       Inl m \<Rightarrow> (Inl (LibraryError m), f,
                                 [Librosa_load input_path, Sf_write out_path])
                     | Inr f' \<Rightarrow> (Inr out_path, f',
                                  [Librosa_load input_path, Sf_write out_path]))))"

subsection \<open>\<^verbatim>\<open>run_basic_pitch\<close> (lines 32-88)\<close>

definition basic_pitch_import_message :: string where
  \<comment> \<open>the text of the RuntimeError of lines 46-51, as UTF-8 bytes\<close>
  "basic_pitch_import_message =
       ''Basic Pitch (basic_pitch) ''
     @ [CHR 0xE3, CHR 0x82, CHR 0x92, CHR 0xE3, CHR 0x82, CHR 0xA4, CHR 0xE3, CHR 0x83, CHR 0xB3]
     @ [CHR 0xE3, CHR 0x83, CHR 0x9D, CHR 0xE3, CHR 0x83, CHR 0xBC, CHR 0xE3, CHR 0x83, CHR 0x88]
     @ [CHR 0xE3, CHR 0x81, CHR 0xA7, CHR 0xE3, CHR 0x81, CHR 0x8D, CHR 0xE3, CHR 0x81, CHR 0xAA]
     @ [CHR 0xE3, CHR 0x81, CHR 0x8B, CHR 0xE3, CHR 0x81, CHR 0xA3, CHR 0xE3, CHR 0x81, CHR 0x9F]
     @ [CHR 0xE3, CHR 0x81, CHR 0x9F, CHR 0xE3, CHR 0x82, CHR 0x81, CHR 0xE3, CHR 0x80, CHR 0x81]
     @ ''Audio''
     @ [CHR 0xE2, CHR 0x86, CHR 0x92]
     @ ''MIDI ''
     @ [CHR 0xE3, CHR 0x82, CHR 0xB9, CHR 0xE3, CHR 0x83, CHR 0x86, CHR 0xE3, CHR 0x83, CHR 0x83]
     @ [CHR 0xE3, CHR 0x83, CHR 0x97, CHR 0xE3, CHR 0x82, CHR 0x92, CHR 0xE5, CHR 0xAE, CHR 0x9F]
     @ [CHR 0xE8, CHR 0xA1, CHR 0x8C, CHR 0xE3, CHR 0x81, CHR 0xA7, CHR 0xE3, CHR 0x81, CHR 0x8D]
     @ [CHR 0xE3, CHR 0x81, CHR 0xBE, CHR 0xE3, CHR 0x81, CHR 0x9B, CHR 0xE3, CHR 0x82, CHR 0x93]
     @ [CHR 0xE3, CHR 0x80, CHR 0x82, CHR 0x0A, CHR 0xE3, CHR 0x83, CHR 0xBB]
     @ ''Audio''
     @ [CHR 0xE2, CHR 0x86, CHR 0x92]
     @ ''MIDI ''
     @ [CHR 0xE3, CHR 0x81, CHR 0x8C, CHR 0xE4, CHR 0xB8, CHR 0x8D, CHR 0xE8, CHR 0xA6, CHR 0x81]
     @ [CHR 0xE3, CHR 0x81, CHR 0xAA, CHR 0xE5, CHR 0xA0, CHR 0xB4, CHR 0xE5, CHR 0x90, CHR 0x88]
     @ [CHR 0xE3, CHR 0x81, CHR 0xAF]
     @ '' --score-only ''
     @ [CHR 0xE3, CHR 0x82, CHR 0x92, CHR 0xE4, CHR 0xBD, CHR 0xBF, CHR 0xE3, CHR 0x81, CHR 0xA3]
     @ [CHR 0xE3, CHR 0x81, CHR 0xA6, CHR 0xE3, CHR 0x81, CHR 0x8F, CHR 0xE3, CHR 0x81, CHR 0xA0]
     @ [CHR 0xE3, CHR 0x81, CHR 0x95, CHR 0xE3, CHR 0x81, CHR 0x84, CHR 0xE3, CHR 0x80, CHR 0x82]
     @ [CHR 0x0A, CHR 0xE3, CHR 0x83, CHR 0xBB, CHR 0xE3, CHR 0x83, CHR 0x95, CHR 0xE3, CHR 0x83]
     @ [CHR 0xAB, CHR 0xE3, CHR 0x83, CHR 0x91, CHR 0xE3, CHR 0x82, CHR 0xA4, CHR 0xE3, CHR 0x83]
     @ [CHR 0x97, CHR 0xE3, CHR 0x83, CHR 0xA9, CHR 0xE3, CHR 0x82, CHR 0xA4, CHR 0xE3, CHR 0x83]
     @ [CHR 0xB3, CHR 0xE3, CHR 0x82, CHR 0x92, CHR 0xE4, CHR 0xBD, CHR 0xBF, CHR 0xE3, CHR 0x81]
     @ [CHR 0x86, CHR 0xE5, CHR 0xA0, CHR 0xB4, CHR 0xE5, CHR 0x90, CHR 0x88, CHR 0xE3, CHR 0x81]
     @ [CHR 0xAF]
     @ '' basic_pitch ''
     @ [CHR 0xE3, CHR 0x81, CHR 0xAE, CHR 0xE3, CHR 0x82, CHR 0xA4, CHR 0xE3, CHR 0x83, CHR 0xB3]
     @ [CHR 0xE3, CHR 0x82, CHR 0xB9, CHR 0xE3, CHR 0x83, CHR 0x88, CHR 0xE3, CHR 0x83, CHR 0xBC]
     @ [CHR 0xE3, CHR 0x83, CHR 0xAB, CHR 0xEF, CHR 0xBC, CHR 0x8F, CHR 0xE3, CHR 0x83, CHR 0x90]
     @ [CHR 0xE3, CHR 0x83, CHR 0xBC, CHR 0xE3, CHR 0x82, CHR 0xB8, CHR 0xE3, CHR 0x83, CHR 0xA7]
     @ [CHR 0xE3, CHR 0x83, CHR 0xB3, CHR 0xE3, CHR 0x82, CHR 0x92, CHR 0xE7, CHR 0xA2, CHR 0xBA]
     @ [CHR 0xE8, CHR 0xAA, CHR 0x8D, CHR 0xE3, CHR 0x81, CHR 0x97, CHR 0xE3, CHR 0x81, CHR 0xA6]
     @ [CHR 0xE3, CHR 0x81, CHR 0x8F, CHR 0xE3, CHR 0x81, CHR 0xA0, CHR 0xE3, CHR 0x81, CHR 0x95]
     @ [CHR 0xE3, CHR 0x81, CHR 0x84, CHR 0xE3, CHR 0x80, CHR 0x82]"

text \<open>
  The loop of lines 59-62 over the extensions: it stops at the first \<^verbatim>\<open>unlink\<close> that
  raises, and returns the file system it has reached.
\<close>

fun remove_stale :: "path \<Rightarrow> string \<Rightarrow> string list \<Rightarrow> fs \<Rightarrow> exn option \<times> fs" where
  "remove_stale output_dir st [] f = (None, f)"
| "remove_stale output_dir st (ext # exts) f =
     (let p = pjoin output_dir (st @ ''_basic_pitch.'' @ ext)
      in if exists f p
         then (case unlink f p of
                 Inl e \<Rightarrow> (Some e, f)
               | Inr f' \<Rightarrow> remove_stale output_dir st exts f')
         else remove_stale output_dir st exts f)"

definition run_basic_pitch ::
  "('s, 'm) env \<Rightarrow> path \<Rightarrow> path \<Rightarrow> fs \<Rightarrow> (exn + path) \<times> fs \<times> event list" where
  "run_basic_pitch env wav_path output_dir f =
     (case import_basic_pitch env of
        Some m \<Rightarrow> (Inl (RuntimeError basic_pitch_import_message), f, [Import_basic_pitch])
      | None \<Rightarrow>
          (case mkdir_p output_dir f of
             Inl e \<Rightarrow> (Inl e, f, [Import_basic_pitch])
           | Inr f0 \<Rightarrow>
               let st = stem wav_path
               in (case remove_stale output_dir st [''mid'', ''npz'', ''csv'', ''wav''] f0 of
                     (Some e, f1) \<Rightarrow> (Inl e, f1, [Import_basic_pitch])
                   | (None, f1) \<Rightarrow>
                       (case predict_and_save env wav_path output_dir f1 of
                          Inl m \<Rightarrow> (Inl (LibraryError m), f1,
                                    [Import_basic_pitch, Predict_and_save wav_path output_dir f1])
                        | Inr f2 \<Rightarrow>
                            let preferred = pjoin output_dir (st @ ''_basic_pitch.mid'');
                                evs = [Import_basic_pitch, Predict_and_save wav_path output_dir f1]
                            in if exists f2 preferred then (Inr preferred, f2, evs)
                               else
                                 (case glob env f2 output_dir (st @ ''*.mid'') of
                                    Inl e \<Rightarrow> (Inl e, f2, evs)
                                  | Inr found \<Rightarrow>
                                      (case sort found of
                                         [] \<Rightarrow>
                                           (Inl (FileNotFoundError
                                              (''Expected MIDI file for '' @ path_str wav_path
                                               @ '' not found under '' @ path_str output_dir
                                               @ ''. (tried '' @ [CHR 0x27] @ name preferred
                                               @ [CHR 0x27] @ '' and pattern '' @ [CHR 0x27] @ st
                                               @ ''*.mid'' @ [CHR 0x27] @ '')'')), f2, evs)
                                       | c # cs \<Rightarrow> (Inr c, f2, evs)))))))"

subsection \<open>\<^verbatim>\<open>run_musescore_convert\<close> (lines 91-120)\<close>

definition arrow :: string where
  \<comment> \<open>the arrow of the messages (U+2192), as UTF-8 bytes, between two spaces\<close>
  "arrow = '' '' @ [CHR 0xE2, CHR 0x86, CHR 0x92] @ '' ''"

definition run_musescore_convert ::
  "('s, 'm) env \<Rightarrow> path \<Rightarrow> path \<Rightarrow> string \<Rightarrow> fs \<Rightarrow> (exn + bool) \<times> fs \<times> event list" where
  "run_musescore_convert env input_path output_path musescore_cmd f =
     (let cmd = [musescore_cmd, ''-o'', path_str output_path, path_str input_path];
          info = Stderr (''[INFO] Running MuseScore CLI: '' @ join '' '' cmd)
      in (case subprocess_run_check env cmd f of
            (Inl (FileNotFoundError m), f') \<Rightarrow>
              (Inr False, f',
               [info, Subprocess_run cmd,
                Stderr (''[WARNING] MuseScore command '' @ [CHR 0x27] @ musescore_cmd @ [CHR 0x27]
                        @ '' not found; skip conversion '' @ path_str input_path @ arrow
                        @ path_str output_path @ ''. ('' @ m @ '')'')])
          | (Inl (CalledProcessError rc), f') \<Rightarrow>
              (Inr False, f',
               [info, Subprocess_run cmd,
                Stderr (''[WARNING] MuseScore CLI failed (exit='' @ str_int rc @ '') ''
                        @ ''when converting '' @ path_str input_path @ arrow
                        @ path_str output_path @ ''; skip this conversion.'')])
          | (Inl e, f') \<Rightarrow> (Inl e, f', [info, Subprocess_run cmd])
          | (Inr u, f') \<Rightarrow> (Inr True, f', [info, Subprocess_run cmd])))"

subsection \<open>\<^verbatim>\<open>midi_to_musicxml\<close> (lines 123-145)\<close>

definition midi_to_musicxml ::
  "('s, 'm) env \<Rightarrow> path \<Rightarrow> path \<Rightarrow> string \<Rightarrow> fs \<Rightarrow> (exn + path) \<times> fs \<times> event list" where
  "midi_to_musicxml env midi_path musicxml_path musescore_cmd f =
     (case run_musescore_convert env midi_path musicxml_path musescore_cmd f of
        (Inl e, f1, evs) \<Rightarrow> (Inl e, f1, evs)
      | (Inr ok, f1, evs) \<Rightarrow>
          if ok then (Inr musicxml_path, f1, evs)
          else
            let info = Stderr (''[INFO] Falling back to music21 for MIDI'' @ arrow
                               @ ''MusicXML conversion.'')
            in (case converter_parse env midi_path f1 of
                  Inl m \<Rightarrow> (Inl (LibraryError m), f1, evs @ [info, Converter_parse midi_path])
                | Inr score \<Rightarrow>
                    (case score_write env score musicxml_path f1 of
                       Inl m \<Rightarrow> (Inl (LibraryError m), f1,
                                 evs @ [info, Converter_parse midi_path, Score_write musicxml_path])
                     | Inr f2 \<Rightarrow> (Inr musicxml_path, f2,
                                  evs @ [info, Converter_parse midi_path,
                                         Score_write musicxml_path]))))"

subsection \<open>\<^verbatim>\<open>musicxml_to_pdf\<close> (lines 148-160)\<close>

definition musicxml_to_pdf ::
  "('s, 'm) env \<Rightarrow> path \<Rightarrow> path \<Rightarrow> string \<Rightarrow> fs \<Rightarrow> (exn + path option) \<times> fs \<times> event list"
  where
  "musicxml_to_pdf env musicxml_path pdf_path musescore_cmd f =
     (case run_musescore_convert env musicxml_path pdf_path musescore_cmd f of
        (Inl e, f1, evs) \<Rightarrow> (Inl e, f1, evs)
      | (Inr ok, f1, evs) \<Rightarrow>
          if \<not> ok then (Inr None, f1, evs) else (Inr (Some pdf_path), f1, evs))"

subsection \<open>\<^verbatim>\<open>main\<close> (lines 163-263)\<close>

text \<open>
  The parsed command line. \<^verbatim>\<open>--backend\<close> has one choice and is never read, so it has
  no field.
\<close>

record args =
  audio :: string
  output_dir :: string
  musescore_cmd :: string
  no_pdf :: bool
  score_only :: bool

definition score_only_hint:: string where
  \<comment> \<open>the two lines that follow the path in the SystemExit of lines 227-231, as UTF-8 bytes\<close>
  "score_only_hint =
       [CHR 0x0A, CHR 0xE5, CHR 0x85, CHR 0x88, CHR 0xE3, CHR 0x81, CHR 0xAB]
     @ '' full ''
     @ [CHR 0xE3, CHR 0x83, CHR 0x91, CHR 0xE3, CHR 0x82, CHR 0xA4, CHR 0xE3, CHR 0x83, CHR 0x97]
     @ [CHR 0xE3, CHR 0x83, CHR 0xA9, CHR 0xE3, CHR 0x82, CHR 0xA4, CHR 0xE3, CHR 0x83, CHR 0xB3]
     @ [CHR 0xE3, CHR 0x81, CHR 0xA7]
     @ '' normalized MIDI ''
     @ [CHR 0xE3, CHR 0x82, CHR 0x92, CHR 0xE7, CHR 0x94, CHR 0x9F, CHR 0xE6, CHR 0x88, CHR 0x90]
     @ [CHR 0xE3, CHR 0x81, CHR 0x97, CHR 0xE3, CHR 0x81, CHR 0xA6, CHR 0xE3, CHR 0x81, CHR 0x8F]
     @ [CHR 0xE3, CHR 0x81, CHR 0xA0, CHR 0xE3, CHR 0x81, CHR 0x95, CHR 0xE3, CHR 0x81, CHR 0x84]
     @ [CHR 0xE3, CHR 0x80, CHR 0x82, CHR 0x0A, CHR 0xE4, CHR 0xBE, CHR 0x8B]
     @ '': audio2score.py build/foo.wav --output-dir build''"

text \<open>
  Lines 239-263 of \<^verbatim>\<open>main\<close>, which both branches of line 220 reach: the two score
  stages and the final report.
\<close>

definition score_stages ::
  "('s, 'm) env \<Rightarrow> args \<Rightarrow> path \<Rightarrow> path \<Rightarrow> path option \<Rightarrow> path \<Rightarrow> fs
     \<Rightarrow> (exn + int) \<times> fs \<times> event list" where
  "score_stages env a input_path out_dir normalized midi_path f =
     (let musicxml_path = pjoin out_dir (stem midi_path @ ''.musicxml'')
      in (case midi_to_musicxml env midi_path musicxml_path (musescore_cmd a) f of
            (Inl e, f1, evs1) \<Rightarrow> (Inl e, f1, evs1)
          | (Inr x, f1, evs1) \<Rightarrow>
              (case (if \<not> no_pdf a
                     then musicxml_to_pdf env musicxml_path
                            (pjoin out_dir (stem midi_path @ ''.pdf'')) (musescore_cmd a) f1
                     else (Inr None, f1, [])) of
                 (Inl e, f2, evs2) \<Rightarrow> (Inl e, f2, evs1 @ evs2)
               | (Inr pdf_path, f2, evs2) \<Rightarrow>
                   (Inr 0, f2,
                    evs1 @ evs2
                    @ [Stdout ''=== Audio to score conversion completed ==='',
                       Stdout (''Input audio : '' @ path_str input_path)]
                    @ (case normalized of
                         Some n \<Rightarrow> [Stdout (''Normalized  : '' @ path_str n)]
                       | None \<Rightarrow> [])
                    @ [Stdout (''MIDI        : '' @ path_str midi_path),
                       Stdout (''MusicXML    : '' @ path_str musicxml_path)]
                    @ (case pdf_path of
                         Some p \<Rightarrow> [Stdout (''PDF         : '' @ path_str p)]
                       | None \<Rightarrow> [Stdout ''PDF         : (not generated)''])))))"

definition main ::
  "('s, 'm) env \<Rightarrow> args \<Rightarrow> fs \<Rightarrow> (exn + int) \<times> fs \<times> event list" where
  "main env a f =
     (case resolve env (audio a) of
        Inl m \<Rightarrow> (Inl (LibraryError m), f, [])
      | Inr input_path \<Rightarrow>
          if \<not> exists f input_path
          then (Inl (SystemExit (''Input audio not found: '' @ path_str input_path)), f, [])
          else
            (case resolve env (output_dir a) of
               Inl m \<Rightarrow> (Inl (LibraryError m), f, [])
             | Inr out_dir \<Rightarrow>
                 (case mkdir_p out_dir f of
                    Inl e \<Rightarrow> (Inl e, f, [])
                  | Inr f0 \<Rightarrow>
                      if score_only a
                      then
                        (case with_suffix input_path ''.normalized.wav'' of
                           Inl e \<Rightarrow> (Inl e, f0, [])
                         | Inr normalized \<Rightarrow>
                             let st = stem normalized;
                                 candidate = pjoin out_dir (st @ ''_basic_pitch.mid'')
                             in if \<not> exists f0 candidate
                                then (Inl (SystemExit
                                        (''Expected normalized MIDI not found: ''
                                         @ path_str candidate @ score_only_hint)), f0, [])
                                else score_stages env a input_path out_dir (Some normalized)
                                       candidate f0)
                      else
                        (case preprocess_audio env input_path 22050 f0 of
                           (Inl e, f1, evs1) \<Rightarrow> (Inl e, f1, evs1)
                         | (Inr normalized, f1, evs1) \<Rightarrow>
                             (case run_basic_pitch env normalized out_dir f1 of
                                (Inl e, f2, evs2) \<Rightarrow> (Inl e, f2, evs1 @ evs2)
                              | (Inr midi_path, f2, evs2) \<Rightarrow>
                                  (case score_stages env a input_path out_dir (Some normalized)
                                          midi_path f2 of
                                     (r, f3, evs3) \<Rightarrow> (r, f3, evs1 @ evs2 @ evs3)))))))"

text \<open>
  The last line of the script, \<^verbatim>\<open>raise SystemExit(main())\<close>: the status of the
  process is the integer \<^verbatim>\<open>main\<close> returns, and 1 when \<^verbatim>\<open>main\<close> raises (a
  \<^verbatim>\<open>SystemExit\<close> with a message, or an exception that nothing catches).
\<close>

definition exit_status :: "exn + int \<Rightarrow> int" where
  "exit_status r = (case r of Inl e \<Rightarrow> 1 | Inr n \<Rightarrow> n)"

subsection \<open>Events of the first two stages\<close>

text \<open>The calls that only the Preprocessor and the Transcriber make.\<close>

fun audio_stage_event :: "event \<Rightarrow> bool" where
  "audio_stage_event (Librosa_load p) = True"
| "audio_stage_event (Sf_write p) = True"
| "audio_stage_event Import_basic_pitch = True"
| "audio_stage_event (Predict_and_save w d f) = True"
| "audio_stage_event e = False"

text \<open>The calls of the fallback strategy of the Score Converter.\<close>

fun fallback_event :: "event \<Rightarrow> bool" where
  "fallback_event (Converter_parse p) = True"
| "fallback_event (Score_write p) = True"
| "fallback_event e = False"

subsection \<open>A concrete environment\<close>

text \<open>
  An environment in which every collaborator works, used to run the pipeline on concrete
  inputs: the working directory is the root and no user has a home directory, samples are
  exact rationals, every tool
  writes the file it is asked for, and a pattern has \<open>*\<close> as its only wildcard.
\<close>

fun components :: "string \<Rightarrow> string \<Rightarrow> path" where
  "components acc [] = (if acc = [] then [] else [acc])"
| "components acc (c # cs) =
     (if c = CHR ''/'' then (if acc = [] then components [] cs else acc # components [] cs)
      else components (acc @ [c]) cs)"

fun star_match :: "string \<Rightarrow> string \<Rightarrow> bool" where
  "star_match [] s = (s = [])"
| "star_match (p # ps) [] = (p = CHR ''*'' \<and> star_match ps [])"
| "star_match (p # ps) (c # cs) =
     (if p = CHR ''*'' then star_match ps (c # cs) \<or> star_match (p # ps) cs
      else p = c \<and> star_match ps cs)"

definition test_env :: "(rat, unit) env" where
  "test_env =
     \<lparr> resolve = (\<lambda>s. if take 1 s = ''~'' then Inl ''Could not determine home directory.''
                      else Inr (components [] s)),
       librosa_load = (\<lambda>p sr f. Inr [1 / 2, - 1 / 4]),
       np_max_abs = (\<lambda>y. fold max (map abs y) 0),
       np_gt_zero = (\<lambda>x. 0 < x),
       np_scale = (\<lambda>y peak. map (\<lambda>v. 95 / 100 * v / peak) y),
       sf_write = (\<lambda>p y sr f. Inr ((p, File) # f)),
       import_basic_pitch = None,
       predict_and_save = (\<lambda>w d f. Inr ((pjoin d (stem w @ ''_basic_pitch.mid''), File) # f)),
       fnmatch = (\<lambda>n pat. star_match pat n),
       spawn = (\<lambda>cmd f. (Exited 0, (components [] (cmd ! 2), File) # f)),
       converter_parse = (\<lambda>p f. Inr ()),
       score_write = (\<lambda>m p f. Inr ((p, File) # f)) \<rparr>"

definition test_args :: args where
  "test_args = \<lparr> audio = ''build/foo.wav'', output_dir = ''build'', musescore_cmd = ''mscore'',
                 no_pdf = False, score_only = False \<rparr>"

definition test_fs :: fs where
  "test_fs = [([''build''], Dir), ([''build'', ''foo.wav''], File)]"

subsection \<open>What a run tells about its artifacts\<close>


section \<open>Properties\<close>

subsection \<open>Path names\<close>

lemma rfind_from_append:
  "rfind_from c (xs @ ys) i found
     = rfind_from c ys (i + int (length xs)) (rfind_from c xs i found)"
  by (induction xs arbitrary: i found) (simp_all add: algebra_simps)

lemma rfind_normalized_wav:
  "rfind CHR ''.'' (s @ ''.normalized.wav'') = int (length s + 11)"
  by (simp add: rfind_def rfind_from_append)

lemma stem_of_normalized_wav: "stem_of (s @ ''.normalized.wav'') = s @ ''.normalized''"
  by (simp add: stem_of_def rfind_normalized_wav Let_def del: of_nat_add)



text \<open>Cutting the old suffix off a name leaves its stem, whether it had a suffix or not.\<close>

lemma cut_suffix_is_stem:
  "(if suffix_of n = [] then n @ sfx else take (length n - length (suffix_of n)) n @ sfx)
     = stem_of n @ sfx"
proof -
  let ?i = "rfind CHR ''.'' n"
  show ?thesis
  proof (cases "0 < ?i \<and> ?i < int (length n) - 1")
    case True
    then have "nat ?i < length n" by linarith
    then have "drop (nat ?i) n \<noteq> []" and "length n - length (drop (nat ?i) n) = nat ?i"
      by simp_all
    with True show ?thesis by (simp add: suffix_of_def stem_of_def Let_def)
  next
    case False
    then have "suffix_of n = []" and "stem_of n = n"
      by (auto simp: suffix_of_def stem_of_def Let_def)
    then show ?thesis by simp
  qed
qed

lemma with_suffix_normalized:
  "name p \<noteq> [] \<Longrightarrow>
     with_suffix p ''.normalized.wav'' = Inr (pjoin (parent p) (stem p @ ''.normalized.wav''))"
  using cut_suffix_is_stem [of "name p" "''.normalized.wav''"]
  by (simp add: with_suffix_def stem_def Let_def)

lemma stem_pjoin: "stem (pjoin d n) = stem_of n"
  by (simp add: stem_def name_def pjoin_def)

lemma name_pjoin: "name (pjoin d n) = n"
  by (simp add: name_def pjoin_def)

subsection \<open>The wrapper of the external tool\<close>

text \<open>The wrapper, by what the launched process does.\<close>

lemma run_musescore_convert_cases:
  "run_musescore_convert env i o' c f =
     (let cmd = [c, ''-o'', path_str o', path_str i];
          info = Stderr (''[INFO] Running MuseScore CLI: '' @ join '' '' cmd)
      in case spawn env cmd f of
           (Exited rc, f') \<Rightarrow>
             if rc = 0 then (Inr True, f', [info, Subprocess_run cmd])
             else (Inr False, f',
                   [info, Subprocess_run cmd,
                    Stderr (''[WARNING] MuseScore CLI failed (exit='' @ str_int rc @ '') ''
                        @ ''when converting '' @ path_str i @ arrow
                        @ path_str o' @ ''; skip this conversion.'')])
         | (NotFound m, f') \<Rightarrow>
             (Inr False, f',
              [info, Subprocess_run cmd,
               Stderr (''[WARNING] MuseScore command '' @ [CHR 0x27] @ c @ [CHR 0x27]
                        @ '' not found; skip conversion '' @ path_str i @ arrow
                        @ path_str o' @ ''. ('' @ m @ '')'')])
         | (LaunchFailed m, f') \<Rightarrow> (Inl (LibraryError m), f', [info, Subprocess_run cmd]))"
  by (simp add: run_musescore_convert_def subprocess_run_check_def Let_def
           split: prod.splits proc.splits)

lemma run_musescore_convert_events:
  "e \<in> set (snd (snd (run_musescore_convert env i o' c f))) \<Longrightarrow>
     \<not> audio_stage_event e \<and> \<not> fallback_event e"
  by (auto simp: run_musescore_convert_cases Let_def split: prod.splits proc.splits if_splits)

text \<open>
  C4. The wrapper returns \<open>True\<close> exactly when the process exits with status 0, also
  when the output file does not exist afterwards. A missing executable and a status other
  than 0 (negative for a signal) both make it print one warning and return \<open>False\<close>:
  neither raises.
\<close>

theorem wrapper_success_iff_exit_zero:
  assumes "spawn env [c, ''-o'', path_str o', path_str i] f = (out, f')"
  shows "(fst (run_musescore_convert env i o' c f) = Inr True \<longleftrightarrow> out = Exited 0)
       \<and> (out = Exited 0 \<and> \<not> exists f' o' \<longrightarrow> fst (run_musescore_convert env i o' c f) = Inr True)
       \<and> ((\<exists>m. out = NotFound m) \<or> (\<exists>rc. rc \<noteq> 0 \<and> out = Exited rc)
            \<longrightarrow> (\<exists>w. run_musescore_convert env i o' c f
                       = (Inr False, f',
                          [Stderr (''[INFO] Running MuseScore CLI: ''
                                   @ join '' '' [c, ''-o'', path_str o', path_str i]),
                           Subprocess_run [c, ''-o'', path_str o', path_str i],
                           Stderr (''[WARNING] MuseScore '' @ w)])))"
  using assms by (cases out) (auto simp: run_musescore_convert_cases Let_def)

theorem wrapper_success_iff_exit_zero_witness:
  "spawn (test_env\<lparr>spawn := (\<lambda>cmd f. (Exited 0, f))\<rparr>)
       [''mscore'', ''-o'', path_str [''build'', ''a.musicxml''], path_str [''build'', ''a.mid'']]
       test_fs
     = (Exited 0, test_fs)
   \<and> \<not> exists test_fs [''build'', ''a.musicxml'']
   \<and> fst (run_musescore_convert (test_env\<lparr>spawn := (\<lambda>cmd f. (Exited 0, f))\<rparr>)
            [''build'', ''a.mid''] [''build'', ''a.musicxml''] ''mscore'' test_fs) = Inr True
   \<and> fst (run_musescore_convert (test_env\<lparr>spawn := (\<lambda>cmd f. (NotFound ''mscore'', f))\<rparr>)
            [''build'', ''a.mid''] [''build'', ''a.musicxml''] ''mscore'' test_fs) = Inr False
   \<and> fst (run_musescore_convert (test_env\<lparr>spawn := (\<lambda>cmd f. (Exited (- 11), f))\<rparr>)
            [''build'', ''a.mid''] [''build'', ''a.musicxml''] ''mscore'' test_fs) = Inr False"
proof -
  let ?cmd = "[''mscore'', ''-o'', path_str [''build'', ''a.musicxml''],
               path_str [''build'', ''a.mid'']]"
  have ok: "spawn (test_env\<lparr>spawn := (\<lambda>cmd f. (Exited 0, f))\<rparr>) ?cmd test_fs
              = (Exited 0, test_fs)"
    by simp
  have missing: "spawn (test_env\<lparr>spawn := (\<lambda>cmd f. (NotFound ''mscore'', f))\<rparr>) ?cmd test_fs
                   = (NotFound ''mscore'', test_fs)"
    by simp
  have crash: "spawn (test_env\<lparr>spawn := (\<lambda>cmd f. (Exited (- 11), f))\<rparr>) ?cmd test_fs
                 = (Exited (- 11), test_fs)"
    by simp
  have absent: "\<not> exists test_fs [''build'', ''a.musicxml'']"
    by (simp add: exists_def lookup_def test_fs_def)
  show ?thesis
    using ok absent
      wrapper_success_iff_exit_zero [OF ok]
      wrapper_success_iff_exit_zero [OF missing]
      wrapper_success_iff_exit_zero [OF crash]
    by auto
qed

subsection \<open>The Score Converter and the Renderer\<close>


lemma midi_to_musicxml_cases:
  "midi_to_musicxml env midi xml c f =
     (case run_musescore_convert env midi xml c f of
        (Inl e, f1, evs) \<Rightarrow> (Inl e, f1, evs)
      | (Inr True, f1, evs) \<Rightarrow> (Inr xml, f1, evs)
      | (Inr False, f1, evs) \<Rightarrow>
          (case converter_parse env midi f1 of
             Inl m \<Rightarrow>
               (Inl (LibraryError m), f1,
                evs @ [Stderr (''[INFO] Falling back to music21 for MIDI'' @ arrow
                               @ ''MusicXML conversion.''),
                       Converter_parse midi])
           | Inr score \<Rightarrow>
               (case score_write env score xml f1 of
                  Inl m \<Rightarrow>
                    (Inl (LibraryError m), f1,
                     evs @ [Stderr (''[INFO] Falling back to music21 for MIDI'' @ arrow
                                    @ ''MusicXML conversion.''),
                            Converter_parse midi, Score_write xml])
                | Inr f2 \<Rightarrow>
                    (Inr xml, f2,
                     evs @ [Stderr (''[INFO] Falling back to music21 for MIDI'' @ arrow
                                    @ ''MusicXML conversion.''),
                            Converter_parse midi, Score_write xml]))))"
  by (simp add: midi_to_musicxml_def Let_def split: prod.splits sum.splits bool.splits)

lemma no_fallback_event_in_wrapper:
  "run_musescore_convert env i o' c f = (r, f1, evs) \<Longrightarrow> \<not> (\<exists>e \<in> set evs. fallback_event e)"
  using run_musescore_convert_events [of _ env i o' c f] by auto

lemma midi_to_musicxml_events:
  "e \<in> set (snd (snd (midi_to_musicxml env midi xml c f))) \<Longrightarrow> \<not> audio_stage_event e"
  using run_musescore_convert_events [of e env midi xml c f]
  by (auto simp: midi_to_musicxml_cases split: prod.splits sum.splits bool.splits)

lemma musicxml_to_pdf_events:
  "e \<in> set (snd (snd (musicxml_to_pdf env xml pdf c f))) \<Longrightarrow> \<not> audio_stage_event e"
  using run_musescore_convert_events [of e env xml pdf c f]
  by (auto simp: musicxml_to_pdf_def split: prod.splits sum.splits if_splits)

lemma score_stages_abort:
  "fst (midi_to_musicxml env midi (pjoin D (stem midi @ ''.musicxml'')) (musescore_cmd a) f) = Inl e
   \<Longrightarrow> score_stages env a inp D n midi f
        = (Inl e,
           snd (midi_to_musicxml env midi (pjoin D (stem midi @ ''.musicxml'')) (musescore_cmd a) f))"
  by (auto simp: score_stages_def Let_def split: prod.splits sum.splits)


lemma wrapper_test_ok:
  "fst (run_musescore_convert test_env i o' c f) = Inr True"
  by (simp add: run_musescore_convert_cases test_env_def)

lemma wrapper_test_missing:
  "run_musescore_convert (test_env\<lparr>spawn := (\<lambda>cmd f. (NotFound m, f))\<rparr>) i o' c f
     = (Inr False, f,
        snd (snd (run_musescore_convert (test_env\<lparr>spawn := (\<lambda>cmd f. (NotFound m, f))\<rparr>) i o' c f)))"
  by (simp add: run_musescore_convert_cases)

lemma wrapper_test_crash:
  "run_musescore_convert (test_env\<lparr>spawn := (\<lambda>cmd f. (Exited (- 11), f))\<rparr>) i o' c f
     = (Inr False, f,
        snd (snd (run_musescore_convert (test_env\<lparr>spawn := (\<lambda>cmd f. (Exited (- 11), f))\<rparr>) i o' c f)))"
  by (simp add: run_musescore_convert_cases)

text \<open>
  The fallback (music21) runs exactly when the wrapper of the external tool returned
  \<open>False\<close>, that is, when the executable was missing or the process ended with a status
  other than 0. When the wrapper returns \<open>True\<close> the Score Converter returns at once. When
  the fallback raises, the exception leaves \<^verbatim>\<open>midi_to_musicxml\<close> with nothing tried
  after it, and \<^verbatim>\<open>main\<close> stops there with a status other than 0.
\<close>

lemma fallback_iff_reported_failure:
  assumes "run_musescore_convert env midi xml c f = (r1, f1, ev1)"
  shows "((\<exists>e \<in> set (snd (snd (midi_to_musicxml env midi xml c f))). fallback_event e)
            \<longleftrightarrow> r1 = Inr False)
       \<and> (r1 = Inr True \<longrightarrow> midi_to_musicxml env midi xml c f = (Inr xml, f1, ev1))
       \<and> (r1 = Inr False \<longrightarrow>
            (\<forall>m. converter_parse env midi f1 = Inl m \<longrightarrow>
                 midi_to_musicxml env midi xml c f
                   = (Inl (LibraryError m), f1,
                      ev1 @ [Stderr (''[INFO] Falling back to music21 for MIDI'' @ arrow
                                     @ ''MusicXML conversion.''),
                             Converter_parse midi]))
          \<and> (\<forall>s m. converter_parse env midi f1 = Inr s \<longrightarrow> score_write env s xml f1 = Inl m \<longrightarrow>
                 midi_to_musicxml env midi xml c f
                   = (Inl (LibraryError m), f1,
                      ev1 @ [Stderr (''[INFO] Falling back to music21 for MIDI'' @ arrow
                                     @ ''MusicXML conversion.''),
                             Converter_parse midi, Score_write xml])))
       \<and> (\<forall>e a inp D n.
             xml = pjoin D (stem midi @ ''.musicxml'') \<longrightarrow> c = musescore_cmd a \<longrightarrow>
             fst (midi_to_musicxml env midi xml c f) = Inl e \<longrightarrow>
               score_stages env a inp D n midi f = (Inl e, snd (midi_to_musicxml env midi xml c f))
             \<and> exit_status (fst (score_stages env a inp D n midi f)) \<noteq> 0)"
proof -
  have nf: "\<not> (\<exists>e \<in> set ev1. fallback_event e)"
    using assms by (rule no_fallback_event_in_wrapper)
  have 1: "(\<exists>e \<in> set (snd (snd (midi_to_musicxml env midi xml c f))). fallback_event e)
            \<longleftrightarrow> r1 = Inr False"
    using assms nf by (auto simp: midi_to_musicxml_cases split: sum.splits bool.splits)
  have 2: "r1 = Inr True \<longrightarrow> midi_to_musicxml env midi xml c f = (Inr xml, f1, ev1)"
    using assms by (simp add: midi_to_musicxml_cases)
  have 3: "r1 = Inr False \<longrightarrow>
            (\<forall>m. converter_parse env midi f1 = Inl m \<longrightarrow>
                 midi_to_musicxml env midi xml c f
                   = (Inl (LibraryError m), f1,
                      ev1 @ [Stderr (''[INFO] Falling back to music21 for MIDI'' @ arrow
                                     @ ''MusicXML conversion.''),
                             Converter_parse midi]))
          \<and> (\<forall>s m. converter_parse env midi f1 = Inr s \<longrightarrow> score_write env s xml f1 = Inl m \<longrightarrow>
                 midi_to_musicxml env midi xml c f
                   = (Inl (LibraryError m), f1,
                      ev1 @ [Stderr (''[INFO] Falling back to music21 for MIDI'' @ arrow
                                     @ ''MusicXML conversion.''),
                             Converter_parse midi, Score_write xml]))"
    using assms by (simp add: midi_to_musicxml_cases)
  have 4: "\<forall>e a inp D n.
             xml = pjoin D (stem midi @ ''.musicxml'') \<longrightarrow> c = musescore_cmd a \<longrightarrow>
             fst (midi_to_musicxml env midi xml c f) = Inl e \<longrightarrow>
               score_stages env a inp D n midi f = (Inl e, snd (midi_to_musicxml env midi xml c f))
             \<and> exit_status (fst (score_stages env a inp D n midi f)) \<noteq> 0"
    by (auto simp: score_stages_abort exit_status_def)
  from 1 2 3 4 show ?thesis by blast
qed

text \<open>
  C3. The claim is that the fallback runs if and only if the primary strategy failed, and
  the docstring of \<^verbatim>\<open>midi_to_musicxml\<close> promises the fallback on failure. The wrapper
  catches \<^verbatim>\<open>FileNotFoundError\<close> and \<^verbatim>\<open>CalledProcessError\<close> only. When the tool
  cannot be launched for another reason (here the command names a file without the
  execute permission, a \<^verbatim>\<open>PermissionError\<close>), the primary strategy has failed, yet no
  fallback is tried: the exception leaves \<^verbatim>\<open>midi_to_musicxml\<close> and the run, here a
  resume run on an existing transcription, ends with status 1.
\<close>

theorem converter_launch_failure_no_fallback:
  "midi_to_musicxml (test_env\<lparr>spawn := (\<lambda>cmd f. (LaunchFailed ''[Errno 13] Permission denied'', f))\<rparr>)
       [''build'', ''foo.normalized_basic_pitch.mid'']
       [''build'', ''foo.normalized_basic_pitch.musicxml''] ''./notes.txt''
       (([''build'', ''foo.normalized_basic_pitch.mid''], File) # test_fs)
     = (Inl (LibraryError ''[Errno 13] Permission denied''),
        ([''build'', ''foo.normalized_basic_pitch.mid''], File) # test_fs,
        [Stderr (''[INFO] Running MuseScore CLI: ./notes.txt -o ''
                 @ ''/build/foo.normalized_basic_pitch.musicxml ''
                 @ ''/build/foo.normalized_basic_pitch.mid''),
         Subprocess_run [''./notes.txt'', ''-o'', ''/build/foo.normalized_basic_pitch.musicxml'',
                         ''/build/foo.normalized_basic_pitch.mid'']])
   \<and> main (test_env\<lparr>spawn := (\<lambda>cmd f. (LaunchFailed ''[Errno 13] Permission denied'', f))\<rparr>)
        (test_args\<lparr>musescore_cmd := ''./notes.txt'', score_only := True\<rparr>)
        (([''build'', ''foo.normalized_basic_pitch.mid''], File) # test_fs)
     = (Inl (LibraryError ''[Errno 13] Permission denied''),
        ([''build'', ''foo.normalized_basic_pitch.mid''], File) # test_fs,
        [Stderr (''[INFO] Running MuseScore CLI: ./notes.txt -o ''
                 @ ''/build/foo.normalized_basic_pitch.musicxml ''
                 @ ''/build/foo.normalized_basic_pitch.mid''),
         Subprocess_run [''./notes.txt'', ''-o'', ''/build/foo.normalized_basic_pitch.musicxml'',
                         ''/build/foo.normalized_basic_pitch.mid'']])
   \<and> exit_status (Inl (LibraryError ''[Errno 13] Permission denied'')) = 1"
  by (simp add: main_def score_stages_def midi_to_musicxml_cases run_musescore_convert_cases
        test_args_def test_env_def mkdir_p.simps lookup_def exists_def test_fs_def
        with_suffix_def suffix_of_def stem_def stem_of_def rfind_def name_def parent_def
        pjoin_def path_str_def exit_status_def Let_def)

text \<open>
  The Renderer is best effort when the tool is missing or exits with a status other than
  0: \<^verbatim>\<open>musicxml_to_pdf\<close> prints a warning and returns \<open>None\<close>, the run ends with
  status 0 and the last line of the report is \<^verbatim>\<open>PDF         : (not generated)\<close>. When
  the tool exits with 0, it returns the destination path and the report names it.
\<close>

lemma renderer_skips_on_reported_failure:
  assumes "\<not> no_pdf a"
    and "xml = pjoin D (stem midi @ ''.musicxml'')"
    and "pdf = pjoin D (stem midi @ ''.pdf'')"
    and "midi_to_musicxml env midi xml (musescore_cmd a) f = (Inr x, f1, ev1)"
    and "spawn env [musescore_cmd a, ''-o'', path_str pdf, path_str xml] f1 = (out, f2)"
  shows "((\<exists>m. out = NotFound m) \<or> (\<exists>rc. rc \<noteq> 0 \<and> out = Exited rc) \<longrightarrow>
            fst (musicxml_to_pdf env xml pdf (musescore_cmd a) f1) = Inr None
          \<and> (\<exists>w. last (snd (snd (musicxml_to_pdf env xml pdf (musescore_cmd a) f1)))
                  = Stderr (''[WARNING] MuseScore '' @ w))
          \<and> fst (score_stages env a inp D n midi f) = Inr 0
          \<and> exit_status (fst (score_stages env a inp D n midi f)) = 0
          \<and> last (snd (snd (score_stages env a inp D n midi f)))
              = Stdout ''PDF         : (not generated)'')
       \<and> (out = Exited 0 \<longrightarrow>
            fst (musicxml_to_pdf env xml pdf (musescore_cmd a) f1) = Inr (Some pdf)
          \<and> fst (score_stages env a inp D n midi f) = Inr 0
          \<and> exit_status (fst (score_stages env a inp D n midi f)) = 0
          \<and> last (snd (snd (score_stages env a inp D n midi f)))
              = Stdout (''PDF         : '' @ path_str pdf))"
  using assms
  by (cases out)
     (auto simp: score_stages_def musicxml_to_pdf_def run_musescore_convert_cases Let_def
                 exit_status_def)

text \<open>
  C5. The claim is that the Renderer returns no document on any failure of the tool and
  never raises, as the docstring of \<^verbatim>\<open>musicxml_to_pdf\<close> says. It is the same missed
  case as for C3: when the launch fails with another exception than the two the wrapper
  catches, \<^verbatim>\<open>musicxml_to_pdf\<close> raises, and a run whose Score Converter had succeeded
  ends with status 1 and prints no report.
\<close>

theorem renderer_launch_failure_raises:
  "musicxml_to_pdf (test_env\<lparr>spawn := (\<lambda>cmd f. (LaunchFailed ''[Errno 13] Permission denied'', f))\<rparr>)
       [''build'', ''a.musicxml''] [''build'', ''a.pdf''] ''./notes.txt'' test_fs
     = (Inl (LibraryError ''[Errno 13] Permission denied''), test_fs,
        [Stderr ''[INFO] Running MuseScore CLI: ./notes.txt -o /build/a.pdf /build/a.musicxml'',
         Subprocess_run [''./notes.txt'', ''-o'', ''/build/a.pdf'', ''/build/a.musicxml'']])
   \<and> score_stages
        (test_env\<lparr>spawn := (\<lambda>cmd f. (if cmd ! 3 = ''/build/a.mid'' then Exited 0
                                       else LaunchFailed ''[Errno 11] Resource temporarily unavailable'',
                                       f))\<rparr>)
        test_args [''build'', ''a.wav''] [''build''] None [''build'', ''a.mid''] test_fs
     = (Inl (LibraryError ''[Errno 11] Resource temporarily unavailable''), test_fs,
        [Stderr ''[INFO] Running MuseScore CLI: mscore -o /build/a.musicxml /build/a.mid'',
         Subprocess_run [''mscore'', ''-o'', ''/build/a.musicxml'', ''/build/a.mid''],
         Stderr ''[INFO] Running MuseScore CLI: mscore -o /build/a.pdf /build/a.musicxml'',
         Subprocess_run [''mscore'', ''-o'', ''/build/a.pdf'', ''/build/a.musicxml'']])
   \<and> exit_status (Inl (LibraryError ''[Errno 11] Resource temporarily unavailable'')) = 1"
  by (simp add: score_stages_def midi_to_musicxml_cases musicxml_to_pdf_def
        run_musescore_convert_cases test_args_def stem_def stem_of_def rfind_def name_def
        pjoin_def path_str_def exit_status_def Let_def)

subsection \<open>The orchestrator\<close>

lemma score_stages_events:
  "e \<in> set (snd (snd (score_stages env a inp D n midi f))) \<Longrightarrow> \<not> audio_stage_event e"
  using midi_to_musicxml_events [of e env midi "pjoin D (stem midi @ ''.musicxml'')" "musescore_cmd a" f]
    musicxml_to_pdf_events [of e env "pjoin D (stem midi @ ''.musicxml'')"
      "pjoin D (stem midi @ ''.pdf'')" "musescore_cmd a"
      "fst (snd (midi_to_musicxml env midi (pjoin D (stem midi @ ''.musicxml'')) (musescore_cmd a) f))"]
  by (auto simp: score_stages_def Let_def split: prod.splits sum.splits option.splits if_splits)








lemma main_score_only_events:
  assumes "score_only a" and "e \<in> set (snd (snd (main env a f)))"
  shows "\<not> audio_stage_event e"
  using assms score_stages_events [of e env a]
  by (auto simp: main_def Let_def split: sum.splits if_splits)





subsection \<open>The pipeline on a concrete input\<close>

lemma mkdir_build: "mkdir_p [''build''] test_fs = Inr test_fs"
  by (simp add: mkdir_p.simps lookup_def test_fs_def)

lemma stem_foo_wav: "stem [''build'', ''foo.wav''] = ''foo''"
  by (simp add: stem_def name_def stem_of_def rfind_def Let_def)

lemma preprocess_test:
  "preprocess_audio test_env [''build'', ''foo.wav''] 22050 test_fs
     = (Inr [''build'', ''foo.normalized.wav''],
        ([''build'', ''foo.normalized.wav''], File) # test_fs,
        [Librosa_load [''build'', ''foo.wav''], Sf_write [''build'', ''foo.normalized.wav'']])"
  by (simp add: preprocess_audio_def test_env_def with_suffix_normalized name_def stem_foo_wav
        pjoin_def parent_def Let_def)

lemma stem_foo_normalized_wav: "stem [''build'', ''foo.normalized.wav''] = ''foo.normalized''"
  using stem_of_normalized_wav [of "''foo''"] by (simp add: stem_def name_def)


subsection \<open>Resume mode\<close>



subsection \<open>The input must exist\<close>




subsection \<open>The Preprocessor\<close>

lemma preprocess_audio_empty:
  "librosa_load env p sr f = Inr [] \<Longrightarrow>
     preprocess_audio env p sr f
       = (Inl (ValueError (''Empty audio after loading: '' @ path_str p)), f, [Librosa_load p])"
  by (simp add: preprocess_audio_def)

lemma preprocess_audio_nonempty:
  assumes "librosa_load env p sr f = Inr y" and "y \<noteq> []" and "name p \<noteq> []"
  shows "preprocess_audio env p sr f =
     (let out_path = pjoin (parent p) (stem p @ ''.normalized.wav'');
          y' = (if np_gt_zero env (np_max_abs env y) then np_scale env y (np_max_abs env y) else y)
      in case sf_write env out_path y' sr f of
           Inl m \<Rightarrow> (Inl (LibraryError m), f, [Librosa_load p, Sf_write out_path])
         | Inr f' \<Rightarrow> (Inr out_path, f', [Librosa_load p, Sf_write out_path]))"
  using assms by (simp add: preprocess_audio_def with_suffix_normalized Let_def)

lemma preprocess_audio_value_error:
  assumes "librosa_load env p sr f = Inr y" and "y \<noteq> []"
  shows "fst (preprocess_audio env p sr f)
           \<noteq> Inl (ValueError (''Empty audio after loading: '' @ path_str p))"
  using assms
  by (auto simp: preprocess_audio_def with_suffix_def Let_def split: sum.splits)

lemma main_empty_audio:
  assumes "\<not> score_only a"
    and "resolve env (audio a) = Inr p"
    and "exists g p"
    and "resolve env (output_dir a) = Inr D"
    and "mkdir_p D g = Inr f"
    and "librosa_load env p 22050 f = Inr []"
  shows "main env a g
           = (Inl (ValueError (''Empty audio after loading: '' @ path_str p)),
              f, [Librosa_load p])"
  using assms by (simp add: main_def Let_def preprocess_audio_empty)

text \<open>
  C7. Once the audio is loaded, the Preprocessor raises its \<^verbatim>\<open>ValueError\<close>
  (\<^verbatim>\<open>Empty audio after loading\<close>) exactly when the waveform has no sample; a full run
  (one whose two path arguments resolve) then ends with that exception and a status other
  than 0, with nothing written. For a
  waveform with a sample (and an input path that has a name) it calls \<^verbatim>\<open>sf.write\<close> on
  the normalized path, and returns that path when the write succeeds.
\<close>

theorem empty_waveform_aborts:
  assumes "librosa_load env p sr f = Inr y"
  shows "(fst (preprocess_audio env p sr f)
            = Inl (ValueError (''Empty audio after loading: '' @ path_str p)) \<longleftrightarrow> y = [])
       \<and> (y = [] \<longrightarrow>
            preprocess_audio env p sr f
              = (Inl (ValueError (''Empty audio after loading: '' @ path_str p)), f,
                 [Librosa_load p])
          \<and> (\<forall>a g D. \<not> score_only a \<longrightarrow> resolve env (audio a) = Inr p \<longrightarrow> sr = 22050 \<longrightarrow>
                 exists g p \<longrightarrow> resolve env (output_dir a) = Inr D \<longrightarrow> mkdir_p D g = Inr f \<longrightarrow>
                   main env a g
                     = (Inl (ValueError (''Empty audio after loading: '' @ path_str p)), f,
                        [Librosa_load p])
                 \<and> exit_status (fst (main env a g)) \<noteq> 0))
       \<and> (y \<noteq> [] \<longrightarrow> name p \<noteq> [] \<longrightarrow>
            preprocess_audio env p sr f
              = (case sf_write env (pjoin (parent p) (stem p @ ''.normalized.wav''))
                        (if np_gt_zero env (np_max_abs env y)
                         then np_scale env y (np_max_abs env y) else y) sr f of
                   Inl m \<Rightarrow>
                     (Inl (LibraryError m), f,
                      [Librosa_load p, Sf_write (pjoin (parent p) (stem p @ ''.normalized.wav''))])
                 | Inr f' \<Rightarrow>
                     (Inr (pjoin (parent p) (stem p @ ''.normalized.wav'')), f',
                      [Librosa_load p, Sf_write (pjoin (parent p) (stem p @ ''.normalized.wav''))])))"
proof -
  have 1: "fst (preprocess_audio env p sr f)
            = Inl (ValueError (''Empty audio after loading: '' @ path_str p)) \<longleftrightarrow> y = []"
    using assms preprocess_audio_empty [of env p sr f] preprocess_audio_value_error [of env p sr f y]
    by (cases "y = []") auto
  have 2: "y = [] \<longrightarrow>
            preprocess_audio env p sr f
              = (Inl (ValueError (''Empty audio after loading: '' @ path_str p)), f,
                 [Librosa_load p])"
    using assms by (simp add: preprocess_audio_empty)
  have 3: "y = [] \<longrightarrow> (\<forall>a g D. \<not> score_only a \<longrightarrow> resolve env (audio a) = Inr p \<longrightarrow> sr = 22050 \<longrightarrow>
                 exists g p \<longrightarrow> resolve env (output_dir a) = Inr D \<longrightarrow> mkdir_p D g = Inr f \<longrightarrow>
                   main env a g
                     = (Inl (ValueError (''Empty audio after loading: '' @ path_str p)), f,
                        [Librosa_load p])
                 \<and> exit_status (fst (main env a g)) \<noteq> 0)"
    using assms by (auto simp: main_empty_audio exit_status_def)
  have 4: "y \<noteq> [] \<longrightarrow> name p \<noteq> [] \<longrightarrow>
            preprocess_audio env p sr f
              = (case sf_write env (pjoin (parent p) (stem p @ ''.normalized.wav''))
                        (if np_gt_zero env (np_max_abs env y)
                         then np_scale env y (np_max_abs env y) else y) sr f of
                   Inl m \<Rightarrow>
                     (Inl (LibraryError m), f,
                      [Librosa_load p, Sf_write (pjoin (parent p) (stem p @ ''.normalized.wav''))])
                 | Inr f' \<Rightarrow>
                     (Inr (pjoin (parent p) (stem p @ ''.normalized.wav'')), f',
                      [Librosa_load p, Sf_write (pjoin (parent p) (stem p @ ''.normalized.wav''))]))"
    using assms preprocess_audio_nonempty [of env p sr f y] by (simp add: Let_def)
  from 1 2 3 4 show ?thesis by blast
qed

theorem empty_waveform_aborts_witness:
  "librosa_load (test_env\<lparr>librosa_load := (\<lambda>p sr f. Inr [])\<rparr>) [''build'', ''foo.wav''] 22050 test_fs
     = Inr []
   \<and> main (test_env\<lparr>librosa_load := (\<lambda>p sr f. Inr [])\<rparr>) test_args test_fs
     = (Inl (ValueError (''Empty audio after loading: '' @ path_str [''build'', ''foo.wav''])),
        test_fs, [Librosa_load [''build'', ''foo.wav'']])
   \<and> exit_status (fst (main (test_env\<lparr>librosa_load := (\<lambda>p sr f. Inr [])\<rparr>) test_args test_fs))
     \<noteq> 0
   \<and> librosa_load test_env [''build'', ''foo.wav''] 22050 test_fs = Inr [1 / 2, - 1 / 4]
   \<and> fst (preprocess_audio test_env [''build'', ''foo.wav''] 22050 test_fs)
     \<noteq> Inl (ValueError (''Empty audio after loading: '' @ path_str [''build'', ''foo.wav'']))
   \<and> preprocess_audio test_env [''build'', ''foo.wav''] 22050 test_fs
     = (Inr [''build'', ''foo.normalized.wav''],
        ([''build'', ''foo.normalized.wav''], File) # test_fs,
        [Librosa_load [''build'', ''foo.wav''], Sf_write [''build'', ''foo.normalized.wav'']])"
proof -
  let ?E = "test_env\<lparr>librosa_load := (\<lambda>p sr f. Inr [])\<rparr>"
  let ?I = "[''build'', ''foo.wav'']"
  have l0: "librosa_load ?E ?I 22050 test_fs = Inr []" by simp
  have l1: "librosa_load test_env ?I 22050 test_fs = Inr [1 / 2, - 1 / 4]"
    by (simp add: test_env_def)
  have full: "\<not> score_only test_args" by (simp add: test_args_def)
  have i: "resolve ?E (audio test_args) = Inr ?I" by (simp add: test_env_def test_args_def)
  have d: "resolve ?E (output_dir test_args) = Inr [''build'']"
    by (simp add: test_env_def test_args_def)
  have ex: "exists test_fs ?I" by (simp add: exists_def lookup_def test_fs_def)
  have nm: "name ?I \<noteq> []" by (simp add: name_def)
  note T0 = empty_waveform_aborts [OF l0]
  note T1 = empty_waveform_aborts [OF l1]
  from T0 have "\<forall>a g D. \<not> score_only a \<longrightarrow> resolve ?E (audio a) = Inr ?I \<longrightarrow> (22050::nat) = 22050 \<longrightarrow>
      exists g ?I \<longrightarrow> resolve ?E (output_dir a) = Inr D \<longrightarrow> mkdir_p D g = Inr test_fs \<longrightarrow>
        main ?E a g
          = (Inl (ValueError (''Empty audio after loading: '' @ path_str ?I)), test_fs,
             [Librosa_load ?I])
      \<and> exit_status (fst (main ?E a g)) \<noteq> 0"
    by blast
  from this [rule_format, OF full i refl ex d mkdir_build]
  have a0: "main ?E test_args test_fs
          = (Inl (ValueError (''Empty audio after loading: '' @ path_str ?I)), test_fs,
             [Librosa_load ?I])
      \<and> exit_status (fst (main ?E test_args test_fs)) \<noteq> 0" .
  from T1 have a1: "fst (preprocess_audio test_env ?I 22050 test_fs)
     \<noteq> Inl (ValueError (''Empty audio after loading: '' @ path_str ?I))"
    by blast
  from l0 l1 a0 a1 preprocess_test show ?thesis by blast
qed

subsection \<open>The Transcriber\<close>

lemma map_of_filter_key:
  "map_of (filter (\<lambda>e. fst e \<noteq> p) f) q = (if q = p then None else map_of f q)"
  by (induction f) auto

lemma unlink_lookup:
  assumes "unlink f p = Inr f'" and "p \<noteq> []"
  shows "lookup f' q = (if q = p then None else lookup f q)"
proof -
  from assms(1) have "f' = filter (\<lambda>e. fst e \<noteq> p) f"
    by (auto simp: unlink_def split: option.splits node.splits)
  with assms(2) show ?thesis
    by (simp add: lookup_def map_of_filter_key)
qed

lemma unlink_file: "lookup f p = Some File \<Longrightarrow> \<exists>f'. unlink f p = Inr f'"
  by (simp add: unlink_def)

lemma remove_stale_lookup:
  "remove_stale d st exts f = (None, f') \<Longrightarrow>
     lookup f' q = (if q \<in> (\<lambda>ext. pjoin d (st @ ''_basic_pitch.'' @ ext)) ` set exts
                    then None else lookup f q)"
proof (induction exts arbitrary: f)
  case Nil
  then show ?case by simp
next
  case (Cons ext exts)
  let ?p = "pjoin d (st @ ''_basic_pitch.'' @ ext)"
  have ne: "?p \<noteq> []" by (simp add: pjoin_def)
  show ?case
  proof (cases "exists f ?p")
    case True
    with Cons.prems obtain f1 where u: "unlink f ?p = Inr f1"
      and r: "remove_stale d st exts f1 = (None, f')"
      by (auto simp: Let_def split: sum.splits)
    from Cons.IH [OF r] unlink_lookup [OF u ne] show ?thesis
      by auto
  next
    case False
    with Cons.prems have r: "remove_stale d st exts f = (None, f')"
      by (simp add: Let_def)
    from False have "lookup f ?p = None" by (simp add: exists_def)
    with Cons.IH [OF r] show ?thesis by auto
  qed
qed

lemma remove_stale_succeeds:
  "\<forall>ext \<in> set exts. lookup f (pjoin d (st @ ''_basic_pitch.'' @ ext)) \<noteq> Some Dir \<Longrightarrow>
     fst (remove_stale d st exts f) = None"
proof (induction exts arbitrary: f)
  case Nil
  then show ?case by simp
next
  case (Cons ext exts)
  let ?p = "pjoin d (st @ ''_basic_pitch.'' @ ext)"
  have ne: "?p \<noteq> []" by (simp add: pjoin_def)
  show ?case
  proof (cases "exists f ?p")
    case True
    with Cons.prems have "lookup f ?p = Some File"
      by (cases "lookup f ?p") (auto simp: exists_def intro: node.exhaust)
    then obtain f1 where u: "unlink f ?p = Inr f1"
      using unlink_file by blast
    have "\<forall>e \<in> set exts. lookup f1 (pjoin d (st @ ''_basic_pitch.'' @ e)) \<noteq> Some Dir"
      using Cons.prems unlink_lookup [OF u ne] by auto
    from Cons.IH [OF this] True u show ?thesis
      by (simp add: Let_def)
  next
    case False
    with Cons.IH [of f] Cons.prems show ?thesis
      by (simp add: Let_def)
  qed
qed

lemma run_basic_pitch_predict_event:
  assumes "Predict_and_save w d g \<in> set (snd (snd (run_basic_pitch env wav D f)))"
  shows "w = wav \<and> d = D
       \<and> (\<exists>f0. mkdir_p D f = Inr f0
             \<and> remove_stale D (stem wav) [''mid'', ''npz'', ''csv'', ''wav''] f0 = (None, g))"
proof (cases "import_basic_pitch env")
  case (Some m)
  with assms show ?thesis by (simp add: run_basic_pitch_def)
next
  case None
  show ?thesis
  proof (cases "mkdir_p D f")
    case (Inl e)
    with None assms show ?thesis by (simp add: run_basic_pitch_def)
  next
    case (Inr f0)
    obtain r f1 where rs: "remove_stale D (stem wav) [''mid'', ''npz'', ''csv'', ''wav''] f0 = (r, f1)"
      by (cases "remove_stale D (stem wav) [''mid'', ''npz'', ''csv'', ''wav''] f0")
    show ?thesis
    proof (cases r)
      case (Some e)
      with None Inr rs assms show ?thesis
        by (simp add: run_basic_pitch_def Let_def del: remove_stale.simps)
    next
      case rn: None
      with None Inr rs assms have "w = wav \<and> d = D \<and> g = f1"
        by (auto simp: run_basic_pitch_def Let_def simp del: remove_stale.simps
                 split: sum.splits list.splits if_splits)
      with Inr rs rn show ?thesis by blast
    qed
  qed
qed

lemma run_basic_pitch_invokes:
  assumes "import_basic_pitch env = None"
    and "mkdir_p D f = Inr f0"
    and "remove_stale D (stem wav) [''mid'', ''npz'', ''csv'', ''wav''] f0 = (None, g)"
  shows "Predict_and_save wav D g \<in> set (snd (snd (run_basic_pitch env wav D f)))"
  using assms
  by (auto simp: run_basic_pitch_def Let_def simp del: remove_stale.simps
           split: sum.splits list.splits)

lemma with_suffix_Inr_name: "with_suffix p sfx = Inr q \<Longrightarrow> name p \<noteq> []"
  by (auto simp: with_suffix_def split: if_splits)

lemma preprocess_audio_Inr:
  assumes "preprocess_audio env p sr f = (Inr n, f1, ev1)"
  shows "n = pjoin (parent p) (stem p @ ''.normalized.wav'') \<and> ev1 = [Librosa_load p, Sf_write n]"
proof -
  from assms obtain q where q: "with_suffix p ''.normalized.wav'' = Inr q"
    by (auto simp: preprocess_audio_def Let_def split: sum.splits if_splits)
  then have "q = pjoin (parent p) (stem p @ ''.normalized.wav'')"
    using with_suffix_normalized [OF with_suffix_Inr_name [OF q]] by simp
  with assms q show ?thesis
    by (auto simp: preprocess_audio_def Let_def split: sum.splits if_splits)
qed

lemma preprocess_audio_events:
  "Predict_and_save w d g \<notin> set (snd (snd (preprocess_audio env p sr f)))"
  by (auto simp: preprocess_audio_def Let_def split: sum.splits if_splits)

lemma main_predict_event:
  assumes "Predict_and_save w d g \<in> set (snd (snd (main env a f)))"
  shows "\<exists>inp D f1. resolve env (audio a) = Inr inp \<and> resolve env (output_dir a) = Inr D
           \<and> Predict_and_save w d g
               \<in> set (snd (snd (run_basic_pitch env
                     (pjoin (parent inp) (stem inp @ ''.normalized.wav'')) D f1)))"
proof (cases "score_only a")
  case True
  from main_score_only_events [OF True assms] show ?thesis by simp
next
  case False
  from assms obtain inp where ri: "resolve env (audio a) = Inr inp"
    by (cases "resolve env (audio a)") (auto simp: main_def)
  from assms ri have ex: "exists f inp"
    by (auto simp: main_def Let_def split: if_splits)
  from assms ri ex obtain D where rd: "resolve env (output_dir a) = Inr D"
    by (cases "resolve env (output_dir a)") (auto simp: main_def)
  from assms ri ex rd obtain f0 where mk: "mkdir_p D f = Inr f0"
    by (auto simp: main_def Let_def split: sum.splits)
  let ?inp = inp and ?D = D
  obtain r1 f1 ev1 where p: "preprocess_audio env ?inp 22050 f0 = (r1, f1, ev1)"
    by (cases "preprocess_audio env ?inp 22050 f0") auto
  have nev1: "Predict_and_save w d g \<notin> set ev1"
    using preprocess_audio_events [of w d g env ?inp 22050 f0] p by simp
  show ?thesis
  proof (cases r1)
    case (Inl e)
    with False ri rd ex mk p nev1 assms show ?thesis
      by (simp add: main_def Let_def)
  next
    case (Inr n)
    with p have n: "n = pjoin (parent ?inp) (stem ?inp @ ''.normalized.wav'')"
      using preprocess_audio_Inr by blast
    obtain r2 f2 ev2 where b: "run_basic_pitch env n ?D f1 = (r2, f2, ev2)"
      by (cases "run_basic_pitch env n ?D f1") auto
    have "Predict_and_save w d g \<in> set ev2"
    proof (cases r2)
      case (Inl e)
      with False ri rd ex mk p Inr b nev1 assms show ?thesis
        by (simp add: main_def Let_def)
    next
      case m: (Inr m)
      have "Predict_and_save w d g \<notin> set (snd (snd (score_stages env a ?inp ?D (Some n) m f2)))"
        using score_stages_events [of "Predict_and_save w d g"] by auto
      with False ri rd ex mk p Inr b m nev1 assms show ?thesis
        by (auto simp: main_def Let_def split: prod.splits)
    qed
    with b n have "Predict_and_save w d g
           \<in> set (snd (snd (run_basic_pitch env
                 (pjoin (parent inp) (stem inp @ ''.normalized.wav'')) D f1)))"
      by simp
    with ri rd show ?thesis by blast
  qed
qed

text \<open>
  C8. Whenever the transcription capability is called, the file system it finds holds
  none of \<open>D/S.normalized_basic_pitch.{mid,npz,csv,wav}\<close>: in \<^verbatim>\<open>run_basic_pitch\<close> for
  the stem of its audio path, and in \<^verbatim>\<open>main\<close> for the stem \<open>S\<close> of the resolved input
  and the resolved output directory \<open>D\<close>. When
  Basic Pitch can be imported, the output directory can be made and none of the four paths
  is a directory, the capability is called, on the file system that differs from the one
  before only by the four paths being absent. (\<^verbatim>\<open>unlink\<close> raises on a directory, and
  then the capability is not called at all.)
\<close>

theorem no_stale_artifact_at_transcription:
  "(Predict_and_save w d g \<in> set (snd (snd (run_basic_pitch env wav D f))) \<longrightarrow>
      (\<forall>ext \<in> set [''mid'', ''npz'', ''csv'', ''wav''].
          \<not> exists g (pjoin D (stem wav @ ''_basic_pitch.'' @ ext))))
   \<and> (Predict_and_save w d g \<in> set (snd (snd (main env a f))) \<longrightarrow>
      (\<exists>inp out. resolve env (audio a) = Inr inp \<and> resolve env (output_dir a) = Inr out
          \<and> (\<forall>ext \<in> set [''mid'', ''npz'', ''csv'', ''wav''].
                 \<not> exists g (pjoin out (stem inp @ ''.normalized_basic_pitch.'' @ ext)))))
   \<and> (import_basic_pitch env = None \<longrightarrow> mkdir_p D f = Inr f0 \<longrightarrow>
      (\<forall>ext \<in> set [''mid'', ''npz'', ''csv'', ''wav''].
          lookup f0 (pjoin D (stem wav @ ''_basic_pitch.'' @ ext)) \<noteq> Some Dir) \<longrightarrow>
      (\<exists>g'. Predict_and_save wav D g' \<in> set (snd (snd (run_basic_pitch env wav D f)))
          \<and> (\<forall>q. lookup g' q
                  = (if q \<in> (\<lambda>ext. pjoin D (stem wav @ ''_basic_pitch.'' @ ext))
                               ` set [''mid'', ''npz'', ''csv'', ''wav'']
                     then None else lookup f0 q))))"
proof -
  have safe: "\<forall>ext \<in> set [''mid'', ''npz'', ''csv'', ''wav''].
                 \<not> exists g' (pjoin D' (stem wav' @ ''_basic_pitch.'' @ ext))"
    if "Predict_and_save w d g' \<in> set (snd (snd (run_basic_pitch env wav' D' f')))"
    for g' wav' D' f'
  proof -
    from run_basic_pitch_predict_event [OF that] obtain f1 where
      "remove_stale D' (stem wav') [''mid'', ''npz'', ''csv'', ''wav''] f1 = (None, g')"
      by blast
    from remove_stale_lookup [OF this] show ?thesis
      by (simp add: exists_def del: remove_stale.simps)
  qed
  have 1: "Predict_and_save w d g \<in> set (snd (snd (run_basic_pitch env wav D f))) \<longrightarrow>
      (\<forall>ext \<in> set [''mid'', ''npz'', ''csv'', ''wav''].
          \<not> exists g (pjoin D (stem wav @ ''_basic_pitch.'' @ ext)))"
    using safe by blast
  have 2: "Predict_and_save w d g \<in> set (snd (snd (main env a f))) \<longrightarrow>
      (\<exists>inp out. resolve env (audio a) = Inr inp \<and> resolve env (output_dir a) = Inr out
          \<and> (\<forall>ext \<in> set [''mid'', ''npz'', ''csv'', ''wav''].
                 \<not> exists g (pjoin out (stem inp @ ''.normalized_basic_pitch.'' @ ext))))"
  proof
    assume "Predict_and_save w d g \<in> set (snd (snd (main env a f)))"
    from main_predict_event [OF this] obtain inp out f1 where
      ri: "resolve env (audio a) = Inr inp" and rd: "resolve env (output_dir a) = Inr out"
      and "Predict_and_save w d g
         \<in> set (snd (snd (run_basic_pitch env
               (pjoin (parent inp) (stem inp @ ''.normalized.wav'')) out f1)))"
      by blast
    from safe [OF this(3)] have "\<forall>ext \<in> set [''mid'', ''npz'', ''csv'', ''wav''].
          \<not> exists g (pjoin out (stem inp @ ''.normalized_basic_pitch.'' @ ext))"
      by (simp add: stem_pjoin stem_of_normalized_wav)
    with ri rd show "\<exists>inp out. resolve env (audio a) = Inr inp \<and> resolve env (output_dir a) = Inr out
          \<and> (\<forall>ext \<in> set [''mid'', ''npz'', ''csv'', ''wav''].
                 \<not> exists g (pjoin out (stem inp @ ''.normalized_basic_pitch.'' @ ext)))"
      by blast
  qed
  have 3: "import_basic_pitch env = None \<longrightarrow> mkdir_p D f = Inr f0 \<longrightarrow>
      (\<forall>ext \<in> set [''mid'', ''npz'', ''csv'', ''wav''].
          lookup f0 (pjoin D (stem wav @ ''_basic_pitch.'' @ ext)) \<noteq> Some Dir) \<longrightarrow>
      (\<exists>g'. Predict_and_save wav D g' \<in> set (snd (snd (run_basic_pitch env wav D f)))
          \<and> (\<forall>q. lookup g' q
                  = (if q \<in> (\<lambda>ext. pjoin D (stem wav @ ''_basic_pitch.'' @ ext))
                               ` set [''mid'', ''npz'', ''csv'', ''wav'']
                     then None else lookup f0 q)))"
  proof (intro impI)
    assume imp: "import_basic_pitch env = None" and mk: "mkdir_p D f = Inr f0"
      and nd: "\<forall>ext \<in> set [''mid'', ''npz'', ''csv'', ''wav''].
          lookup f0 (pjoin D (stem wav @ ''_basic_pitch.'' @ ext)) \<noteq> Some Dir"
    from remove_stale_succeeds [OF nd] obtain g' where
      rs: "remove_stale D (stem wav) [''mid'', ''npz'', ''csv'', ''wav''] f0 = (None, g')"
      by (metis prod.collapse)
    from run_basic_pitch_invokes [OF imp mk rs] remove_stale_lookup [OF rs]
    show "\<exists>g'. Predict_and_save wav D g' \<in> set (snd (snd (run_basic_pitch env wav D f)))
          \<and> (\<forall>q. lookup g' q
                  = (if q \<in> (\<lambda>ext. pjoin D (stem wav @ ''_basic_pitch.'' @ ext))
                               ` set [''mid'', ''npz'', ''csv'', ''wav'']
                     then None else lookup f0 q))"
      by blast
  qed
  from 1 2 3 show ?thesis by blast
qed

theorem no_stale_artifact_at_transcription_witness:
  "exists ([([''build'', ''foo.normalized_basic_pitch.mid''], File),
            ([''build'', ''foo.normalized_basic_pitch.csv''], File),
            ([''build'', ''foo.normalized.wav''], File)] @ test_fs)
          [''build'', ''foo.normalized_basic_pitch.mid'']
   \<and> Predict_and_save [''build'', ''foo.normalized.wav''] [''build'']
         (([''build'', ''foo.normalized.wav''], File) # test_fs)
       \<in> set (snd (snd (run_basic_pitch test_env [''build'', ''foo.normalized.wav''] [''build'']
             ([([''build'', ''foo.normalized_basic_pitch.mid''], File),
               ([''build'', ''foo.normalized_basic_pitch.csv''], File),
               ([''build'', ''foo.normalized.wav''], File)] @ test_fs))))
   \<and> \<not> exists (([''build'', ''foo.normalized.wav''], File) # test_fs)
          (pjoin [''build''] (stem [''build'', ''foo.normalized.wav''] @ ''_basic_pitch.'' @ ''mid''))
   \<and> \<not> exists (([''build'', ''foo.normalized.wav''], File) # test_fs)
          (pjoin [''build''] (stem [''build'', ''foo.normalized.wav''] @ ''_basic_pitch.'' @ ''csv''))
   \<and> Predict_and_save [''build'', ''foo.normalized.wav''] [''build'']
         (([''build'', ''foo.normalized.wav''], File) # test_fs)
       \<in> set (snd (snd (main test_env test_args
             (([''build'', ''foo.normalized_basic_pitch.mid''], File) # test_fs))))
   \<and> resolve test_env (audio test_args) = Inr [''build'', ''foo.wav'']
   \<and> resolve test_env (output_dir test_args) = Inr [''build'']
   \<and> \<not> exists (([''build'', ''foo.normalized.wav''], File) # test_fs)
          (pjoin [''build''] (stem [''build'', ''foo.wav''] @ ''.normalized_basic_pitch.'' @ ''mid''))
   \<and> (\<exists>g'. Predict_and_save [''build'', ''foo.normalized.wav''] [''build''] g'
              \<in> set (snd (snd (run_basic_pitch test_env [''build'', ''foo.normalized.wav'']
                    [''build'']
                    ([([''build'', ''foo.normalized_basic_pitch.mid''], File),
                      ([''build'', ''foo.normalized_basic_pitch.csv''], File),
                      ([''build'', ''foo.normalized.wav''], File)] @ test_fs))))
            \<and> lookup g' [''build'', ''foo.wav''] = Some File)"
proof -
  let ?N = "[''build'', ''foo.normalized.wav'']" and ?D = "[''build'']"
  let ?S = "[''build'', ''foo.normalized_basic_pitch.mid'']"
  let ?F = "[(?S, File), ([''build'', ''foo.normalized_basic_pitch.csv''], File), (?N, File)] @ test_fs"
  let ?G = "(?N, File) # test_fs"
  have st: "exists ?F ?S" by (simp add: exists_def lookup_def)
  have ev: "snd (snd (run_basic_pitch test_env ?N ?D ?F))
              = [Import_basic_pitch, Predict_and_save ?N ?D ?G]"
    by (simp add: run_basic_pitch_def test_env_def mkdir_p.simps lookup_def exists_def unlink_def
          test_fs_def stem_foo_normalized_wav pjoin_def Let_def)
  then have m1: "Predict_and_save ?N ?D ?G \<in> set (snd (snd (run_basic_pitch test_env ?N ?D ?F)))"
    by simp
  have ev2: "Predict_and_save ?N ?D ?G
               \<in> set (snd (snd (main test_env test_args ((?S, File) # test_fs))))"
    by (simp add: main_def test_args_def test_env_def mkdir_p.simps lookup_def exists_def
          unlink_def test_fs_def preprocess_audio_def run_basic_pitch_def with_suffix_normalized
          name_def stem_foo_wav stem_foo_normalized_wav pjoin_def parent_def Let_def
          split: prod.splits)
  note T1 = no_stale_artifact_at_transcription
    [where w = ?N and d = ?D and g = ?G and env = test_env and wav = ?N and D = ?D and f = ?F
       and ?f0.0 = ?F]
  have imp: "import_basic_pitch test_env = None" by (simp add: test_env_def)
  have mk: "mkdir_p ?D ?F = Inr ?F" by (simp add: mkdir_p.simps lookup_def test_fs_def)
  have nd: "\<forall>ext \<in> set [''mid'', ''npz'', ''csv'', ''wav''].
              lookup ?F (pjoin ?D (stem ?N @ ''_basic_pitch.'' @ ext)) \<noteq> Some Dir"
    by (simp add: lookup_def test_fs_def stem_foo_normalized_wav pjoin_def)
  from T1 imp mk nd have "\<exists>g'. Predict_and_save ?N ?D g'
          \<in> set (snd (snd (run_basic_pitch test_env ?N ?D ?F)))
        \<and> (\<forall>q. lookup g' q
                = (if q \<in> (\<lambda>ext. pjoin ?D (stem ?N @ ''_basic_pitch.'' @ ext))
                             ` set [''mid'', ''npz'', ''csv'', ''wav'']
                   then None else lookup ?F q))"
    by blast
  then obtain g' where g': "Predict_and_save ?N ?D g'
          \<in> set (snd (snd (run_basic_pitch test_env ?N ?D ?F)))"
    and lk: "\<forall>q. lookup g' q
                = (if q \<in> (\<lambda>ext. pjoin ?D (stem ?N @ ''_basic_pitch.'' @ ext))
                             ` set [''mid'', ''npz'', ''csv'', ''wav'']
                   then None else lookup ?F q)"
    by blast
  from lk [rule_format, of "[''build'', ''foo.wav'']"]
  have "lookup g' [''build'', ''foo.wav''] = Some File"
    by (simp add: lookup_def test_fs_def stem_foo_normalized_wav pjoin_def)
  with g' have c3: "\<exists>g'. Predict_and_save ?N ?D g'
          \<in> set (snd (snd (run_basic_pitch test_env ?N ?D ?F)))
        \<and> lookup g' [''build'', ''foo.wav''] = Some File"
    by blast
  note T2 = no_stale_artifact_at_transcription
    [where w = ?N and d = ?D and g = ?G and env = test_env and a = test_args
       and f = "(?S, File) # test_fs"]
  from T1 m1 have a1: "\<forall>ext \<in> set [''mid'', ''npz'', ''csv'', ''wav''].
          \<not> exists ?G (pjoin ?D (stem ?N @ ''_basic_pitch.'' @ ext))"
    by blast
  have ri: "resolve test_env (audio test_args) = Inr [''build'', ''foo.wav'']"
    and rd: "resolve test_env (output_dir test_args) = Inr [''build'']"
    by (simp_all add: test_env_def test_args_def)
  from T2 ev2 have "\<exists>inp out. resolve test_env (audio test_args) = Inr inp
          \<and> resolve test_env (output_dir test_args) = Inr out
          \<and> (\<forall>ext \<in> set [''mid'', ''npz'', ''csv'', ''wav''].
                 \<not> exists ?G (pjoin out (stem inp @ ''.normalized_basic_pitch.'' @ ext)))"
    by blast
  with ri rd have a2: "\<forall>ext \<in> set [''mid'', ''npz'', ''csv'', ''wav''].
          \<not> exists ?G (pjoin [''build''] (stem [''build'', ''foo.wav'']
                          @ ''.normalized_basic_pitch.'' @ ext))"
    by simp
  from a1 have b1: "\<not> exists ?G (pjoin ?D (stem ?N @ ''_basic_pitch.'' @ ''mid''))"
    and b2: "\<not> exists ?G (pjoin ?D (stem ?N @ ''_basic_pitch.'' @ ''csv''))"
    by simp_all
  from a2 have b3: "\<not> exists ?G (pjoin [''build''] (stem [''build'', ''foo.wav'']
             @ ''.normalized_basic_pitch.'' @ ''mid''))"
    by simp
  from st m1 b1 b2 ev2 ri rd b3 c3 show ?thesis by blast
qed

subsection \<open>Locating the transcription\<close>

lemma glob_member:
  "glob env f d pat = Inr found \<Longrightarrow> c \<in> set found \<Longrightarrow>
     exists f c \<and> parent c = d \<and> fnmatch env (name c) pat"
proof -
  assume "glob env f d pat = Inr found" and "c \<in> set found"
  then have c: "c \<in> fst ` set f" "c \<noteq> []" "parent c = d" "fnmatch env (name c) pat"
    by (auto simp: glob_def split: if_splits)
  from c(1) have "map_of f c \<noteq> None"
    by (simp add: map_of_eq_None_iff)
  with c show ?thesis by (simp add: exists_def lookup_def)
qed

lemma glob_raises:
  "(\<exists>e. glob env f d pat = Inl e) \<longleftrightarrow> has_double_star pat"
  "glob env f d pat = Inl e \<Longrightarrow> \<exists>m. e = ValueError m"
  by (auto simp: glob_def split: if_splits)

lemma sort_head_least:
  assumes "sort xs = c # cs"
  shows "c \<in> set xs \<and> (\<forall>x \<in> set xs. c \<le> x)"
proof -
  have s: "set (sort xs) = set xs" by simp
  have "sorted (sort xs)" by simp
  with assms have "\<forall>x \<in> set cs. c \<le> x" by simp
  with assms s show ?thesis by (metis list.set_intros(1) order_refl set_ConsD)
qed

lemma run_basic_pitch_located:
  assumes "import_basic_pitch env = None"
    and "mkdir_p D f = Inr f0"
    and "remove_stale D (stem wav) [''mid'', ''npz'', ''csv'', ''wav''] f0 = (None, f1)"
    and "predict_and_save env wav D f1 = Inr f2"
  shows "exists f2 (pjoin D (stem wav @ ''_basic_pitch.mid'')) \<Longrightarrow>
           run_basic_pitch env wav D f
             = (Inr (pjoin D (stem wav @ ''_basic_pitch.mid'')), f2,
                [Import_basic_pitch, Predict_and_save wav D f1])"
    and "\<not> exists f2 (pjoin D (stem wav @ ''_basic_pitch.mid'')) \<Longrightarrow>
           glob env f2 D (stem wav @ ''*.mid'') = Inr found \<Longrightarrow> sort found = c # cs \<Longrightarrow>
           run_basic_pitch env wav D f
             = (Inr c, f2, [Import_basic_pitch, Predict_and_save wav D f1])"
    and "\<not> exists f2 (pjoin D (stem wav @ ''_basic_pitch.mid'')) \<Longrightarrow>
           glob env f2 D (stem wav @ ''*.mid'') = Inr found \<Longrightarrow> sort found = [] \<Longrightarrow>
           \<exists>m. run_basic_pitch env wav D f
             = (Inl (FileNotFoundError m), f2, [Import_basic_pitch, Predict_and_save wav D f1])"
    and "\<not> exists f2 (pjoin D (stem wav @ ''_basic_pitch.mid'')) \<Longrightarrow>
           glob env f2 D (stem wav @ ''*.mid'') = Inl e \<Longrightarrow>
           run_basic_pitch env wav D f
             = (Inl e, f2, [Import_basic_pitch, Predict_and_save wav D f1])"
  using assms
  by (simp_all add: run_basic_pitch_def Let_def del: remove_stale.simps)

text \<open>
  C9, as the code has it. After a transcription that returned, for the audio path
  \<open>d/S.normalized.wav\<close>: the Transcriber returns \<open>D/S.normalized_basic_pitch.mid\<close> when
  that path exists. Otherwise it globs \<open>D\<close> for \<open>S.normalized*.mid\<close>, the stem of the
  normalized audio and not of the input: it returns the least path, in the order of paths,
  among the entries of \<open>D\<close> whose name matches; it raises \<^verbatim>\<open>FileNotFoundError\<close> exactly
  when the exact path does not exist and the glob returns nothing; and when the glob
  itself raises, which it does exactly when the pattern holds \<^verbatim>\<open>**\<close>, that
  \<^verbatim>\<open>ValueError\<close> leaves the Transcriber.
\<close>

theorem transcriber_locates_midi:
  assumes "import_basic_pitch env = None"
    and "mkdir_p D f = Inr f0"
    and "wav = pjoin d (S @ ''.normalized.wav'')"
    and "remove_stale D (S @ ''.normalized'') [''mid'', ''npz'', ''csv'', ''wav''] f0 = (None, f1)"
    and "predict_and_save env wav D f1 = Inr f2"
    and "preferred = pjoin D (S @ ''.normalized_basic_pitch.mid'')"
    and "pattern = S @ ''.normalized*.mid''"
  shows "(exists f2 preferred \<longrightarrow> fst (run_basic_pitch env wav D f) = Inr preferred)
       \<and> (\<forall>candidates. \<not> exists f2 preferred \<longrightarrow> glob env f2 D pattern = Inr candidates \<longrightarrow>
            candidates \<noteq> [] \<longrightarrow>
            (\<exists>c. fst (run_basic_pitch env wav D f) = Inr c
                 \<and> c \<in> set candidates \<and> (\<forall>c' \<in> set candidates. c \<le> c')
                 \<and> exists f2 c \<and> parent c = D \<and> fnmatch env (name c) pattern))
       \<and> ((\<exists>m. fst (run_basic_pitch env wav D f) = Inl (FileNotFoundError m))
            \<longleftrightarrow> \<not> exists f2 preferred \<and> glob env f2 D pattern = Inr [])
       \<and> (\<forall>e. \<not> exists f2 preferred \<longrightarrow> glob env f2 D pattern = Inl e \<longrightarrow>
            fst (run_basic_pitch env wav D f) = Inl e \<and> (\<exists>m. e = ValueError m))
       \<and> ((\<exists>e. glob env f2 D pattern = Inl e) \<longleftrightarrow> has_double_star pattern)"
proof -
  have st: "stem wav = S @ ''.normalized''"
    using assms(3) by (simp add: stem_pjoin stem_of_normalized_wav)
  have rs: "remove_stale D (stem wav) [''mid'', ''npz'', ''csv'', ''wav''] f0 = (None, f1)"
    using assms(4) unfolding st .
  have p: "pjoin D (stem wav @ ''_basic_pitch.mid'') = preferred"
    and g: "stem wav @ ''*.mid'' = pattern"
    by (simp_all add: st assms(6) assms(7))
  note L = run_basic_pitch_located [OF assms(1) assms(2) rs assms(5), unfolded p g]
  have 1: "exists f2 preferred \<longrightarrow> fst (run_basic_pitch env wav D f) = Inr preferred"
    using L(1) by simp
  have 2: "\<forall>candidates. \<not> exists f2 preferred \<longrightarrow> glob env f2 D pattern = Inr candidates \<longrightarrow>
            candidates \<noteq> [] \<longrightarrow>
            (\<exists>c. fst (run_basic_pitch env wav D f) = Inr c
                 \<and> c \<in> set candidates \<and> (\<forall>c' \<in> set candidates. c \<le> c')
                 \<and> exists f2 c \<and> parent c = D \<and> fnmatch env (name c) pattern)"
  proof (intro allI impI)
    fix candidates
    assume np: "\<not> exists f2 preferred" and gl: "glob env f2 D pattern = Inr candidates"
      and ne: "candidates \<noteq> []"
    from ne have "sort candidates \<noteq> []"
      by (metis length_sort length_0_conv)
    then obtain c cs where s: "sort candidates = c # cs"
      by (cases "sort candidates") auto
    from sort_head_least [OF s] have c: "c \<in> set candidates" "\<forall>c' \<in> set candidates. c \<le> c'"
      by blast+
    from glob_member [OF gl c(1)]
    have "exists f2 c \<and> parent c = D \<and> fnmatch env (name c) pattern" .
    moreover from L(2) [OF np gl s] have "fst (run_basic_pitch env wav D f) = Inr c" by simp
    ultimately show "\<exists>c. fst (run_basic_pitch env wav D f) = Inr c
                 \<and> c \<in> set candidates \<and> (\<forall>c' \<in> set candidates. c \<le> c')
                 \<and> exists f2 c \<and> parent c = D \<and> fnmatch env (name c) pattern"
      using c by blast
  qed
  have 3: "(\<exists>m. fst (run_basic_pitch env wav D f) = Inl (FileNotFoundError m))
            \<longleftrightarrow> \<not> exists f2 preferred \<and> glob env f2 D pattern = Inr []"
  proof (cases "exists f2 preferred")
    case True
    with L(1) show ?thesis by simp
  next
    case False
    show ?thesis
    proof (cases "glob env f2 D pattern")
      case (Inl e)
      from glob_raises(2) [OF Inl] L(4) [OF False Inl] Inl show ?thesis by auto
    next
      case (Inr candidates)
      show ?thesis
      proof (cases "sort candidates")
        case Nil
        then have "candidates = []" by (metis length_sort length_0_conv)
        with L(3) [OF False Inr Nil] False Inr show ?thesis by auto
      next
        case (Cons c cs)
        then have "candidates \<noteq> []" by auto
        with L(2) [OF False Inr Cons] False Inr show ?thesis by simp
      qed
    qed
  qed
  have 4: "\<forall>e. \<not> exists f2 preferred \<longrightarrow> glob env f2 D pattern = Inl e \<longrightarrow>
            fst (run_basic_pitch env wav D f) = Inl e \<and> (\<exists>m. e = ValueError m)"
    using L(4) glob_raises(2) [of env f2 D pattern] by auto
  have 5: "(\<exists>e. glob env f2 D pattern = Inl e) \<longleftrightarrow> has_double_star pattern"
    by (rule glob_raises(1))
  from 1 2 3 4 5 show ?thesis by blast
qed

theorem transcriber_locates_midi_witness:
  "fst (run_basic_pitch test_env [''build'', ''foo.normalized.wav''] [''build'']
          (([''build'', ''foo.normalized.wav''], File) # test_fs))
     = Inr [''build'', ''foo.normalized_basic_pitch.mid'']
   \<and> fst (run_basic_pitch
            (test_env\<lparr>predict_and_save := (\<lambda>w d f. Inr ((pjoin d (stem w @ ''.mid''), File) # f))\<rparr>)
            [''build'', ''foo.normalized.wav''] [''build'']
            (([''build'', ''foo.normalized.wav''], File) # test_fs))
     = Inr [''build'', ''foo.normalized.mid'']
   \<and> (\<exists>m. fst (run_basic_pitch (test_env\<lparr>predict_and_save := (\<lambda>w d f. Inr f)\<rparr>)
                  [''build'', ''foo.normalized.wav''] [''build'']
                  (([''build'', ''foo.normalized.wav''], File) # test_fs))
            = Inl (FileNotFoundError m))
   \<and> has_double_star (''a**b'' @ ''.normalized*.mid'')
   \<and> (\<exists>m. fst (run_basic_pitch (test_env\<lparr>predict_and_save := (\<lambda>w d f. Inr f)\<rparr>)
                  [''build'', ''a**b.normalized.wav''] [''build'']
                  (([''build'', ''a**b.normalized.wav''], File) # test_fs))
            = Inl (ValueError m))"
proof -
  let ?N = "[''build'', ''foo.normalized.wav'']" and ?D = "[''build'']"
  let ?F = "(?N, File) # test_fs"
  let ?P = "[''build'', ''foo.normalized_basic_pitch.mid'']"
  let ?A = "[''build'', ''foo.normalized.mid'']"
  let ?E2 = "test_env\<lparr>predict_and_save := (\<lambda>w d f. Inr ((pjoin d (stem w @ ''.mid''), File) # f))\<rparr>"
  let ?E3 = "test_env\<lparr>predict_and_save := (\<lambda>w d f. Inr f)\<rparr>"
  let ?M = "[''build'', ''a**b.normalized.wav'']"
  let ?H = "(?M, File) # test_fs"
  have imp: "import_basic_pitch test_env = None" "import_basic_pitch ?E2 = None"
    "import_basic_pitch ?E3 = None"
    by (simp_all add: test_env_def)
  have mk: "mkdir_p ?D ?F = Inr ?F" and mk': "mkdir_p ?D ?H = Inr ?H"
    by (simp_all add: mkdir_p.simps lookup_def test_fs_def)
  have w: "?N = pjoin ?D (''foo'' @ ''.normalized.wav'')"
    and w': "?M = pjoin ?D (''a**b'' @ ''.normalized.wav'')"
    by (simp_all add: pjoin_def)
  have rs: "remove_stale ?D (''foo'' @ ''.normalized'') [''mid'', ''npz'', ''csv'', ''wav''] ?F
              = (None, ?F)"
    and rs': "remove_stale ?D (''a**b'' @ ''.normalized'') [''mid'', ''npz'', ''csv'', ''wav''] ?H
              = (None, ?H)"
    by (simp_all add: exists_def lookup_def test_fs_def pjoin_def)
  have p1: "predict_and_save test_env ?N ?D ?F = Inr ((?P, File) # ?F)"
    by (simp add: test_env_def stem_foo_normalized_wav pjoin_def)
  have p2: "predict_and_save ?E2 ?N ?D ?F = Inr ((?A, File) # ?F)"
    by (simp add: stem_foo_normalized_wav pjoin_def)
  have p3: "predict_and_save ?E3 ?N ?D ?F = Inr ?F" and p4: "predict_and_save ?E3 ?M ?D ?H = Inr ?H"
    by simp_all
  have pr: "?P = pjoin ?D (''foo'' @ ''.normalized_basic_pitch.mid'')" by (simp add: pjoin_def)
  have g2: "glob ?E2 ((?A, File) # ?F) ?D (''foo'' @ ''.normalized*.mid'') = Inr [?A]"
    by (simp add: glob_def test_env_def test_fs_def name_def parent_def)
  have g3: "glob ?E3 ?F ?D (''foo'' @ ''.normalized*.mid'') = Inr []"
    by (simp add: glob_def test_env_def test_fs_def name_def parent_def)
  have hd: "has_double_star (''a**b'' @ ''.normalized*.mid'')" by simp
  have e1: "exists ((?P, File) # ?F) ?P" by (simp add: exists_def lookup_def)
  have e2: "\<not> exists ((?A, File) # ?F) ?P" and e3: "\<not> exists ?F ?P"
    and e4: "\<not> exists ?H (pjoin ?D (''a**b'' @ ''.normalized_basic_pitch.mid''))"
    by (simp_all add: exists_def lookup_def test_fs_def pjoin_def)
  note T1 = transcriber_locates_midi [OF imp(1) mk w rs p1 pr refl]
  note T2 = transcriber_locates_midi [OF imp(2) mk w rs p2 pr refl]
  note T3 = transcriber_locates_midi [OF imp(3) mk w rs p3 pr refl]
  note T4 = transcriber_locates_midi [OF imp(3) mk' w' rs' p4 refl refl]
  from T1 e1 have a1: "fst (run_basic_pitch test_env ?N ?D ?F) = Inr ?P" by blast
  from T2 e2 g2 have "\<exists>c. fst (run_basic_pitch ?E2 ?N ?D ?F) = Inr c \<and> c \<in> set [?A]"
    by blast
  then have a2: "fst (run_basic_pitch ?E2 ?N ?D ?F) = Inr ?A" by simp
  from T3 e3 g3 have a3: "\<exists>m. fst (run_basic_pitch ?E3 ?N ?D ?F) = Inl (FileNotFoundError m)"
    by blast
  from T4 hd obtain e where ge: "glob ?E3 ?H ?D (''a**b'' @ ''.normalized*.mid'') = Inl e"
    by blast
  with T4 e4 have a4: "\<exists>m. fst (run_basic_pitch ?E3 ?M ?D ?H) = Inl (ValueError m)"
    by blast
  from a1 a2 a3 hd a4 show ?thesis by blast
qed

text \<open>
  C9 as stated has the pattern \<open>S*.mid\<close> for the stem \<open>S\<close> of the input. With
  \<open>foo_old.mid\<close> in the output directory and a transcription that wrote nothing, a file
  matches \<open>foo*.mid\<close> and yet the Transcriber raises: it looks for
  \<open>foo.normalized*.mid\<close>.
\<close>

theorem glob_on_input_stem_counterexample:
  "[''build'', ''foo.normalized.wav''] = pjoin [''build''] (''foo'' @ ''.normalized.wav'')
   \<and> fst (snd (run_basic_pitch (test_env\<lparr>predict_and_save := (\<lambda>w d f. Inr f)\<rparr>)
                  [''build'', ''foo.normalized.wav''] [''build'']
                  [([''build'', ''foo_old.mid''], File), ([''build'', ''foo.normalized.wav''], File),
                   ([''build''], Dir)]))
       = [([''build'', ''foo_old.mid''], File), ([''build'', ''foo.normalized.wav''], File),
          ([''build''], Dir)]
   \<and> glob (test_env\<lparr>predict_and_save := (\<lambda>w d f. Inr f)\<rparr>)
        [([''build'', ''foo_old.mid''], File), ([''build'', ''foo.normalized.wav''], File),
         ([''build''], Dir)]
        [''build''] (''foo'' @ ''*.mid'')
       = Inr [[''build'', ''foo_old.mid'']]
   \<and> (\<exists>m. fst (run_basic_pitch (test_env\<lparr>predict_and_save := (\<lambda>w d f. Inr f)\<rparr>)
                  [''build'', ''foo.normalized.wav''] [''build'']
                  [([''build'', ''foo_old.mid''], File), ([''build'', ''foo.normalized.wav''], File),
                   ([''build''], Dir)])
            = Inl (FileNotFoundError m))"
  by (simp add: run_basic_pitch_def glob_def test_env_def mkdir_p.simps lookup_def exists_def
        stem_foo_normalized_wav name_def parent_def pjoin_def Let_def)

subsection \<open>The names of the artifacts\<close>















lemma main_full_preprocess_events:
  assumes "\<not> score_only a"
    and "resolve env (audio a) = Inr inp"
    and "resolve env (output_dir a) = Inr D"
    and "exists f inp"
    and "mkdir_p D f = Inr f0"
  shows "set (snd (snd (preprocess_audio env inp 22050 f0))) \<subseteq> set (snd (snd (main env a f)))"
  using assms by (auto simp: main_def split: prod.splits sum.splits)











end
